theory Spec2Isabelle
  imports Complex_Main
begin

section \<open>Data model\<close>

text \<open>
  The agent session of \<^verbatim>\<open>types.ts\<close>, restricted to the fields that the watchdog
  (\<^verbatim>\<open>src/watchdog/daemon.ts\<close>) and the mail command (in \<^verbatim>\<open>src/commands/stop.ts\<close>) read or
  write. Timestamps are epoch milliseconds (\<open>int\<close>); the ISO strings of the source are
  the same instants, written by \<^verbatim>\<open>toISOString\<close> and read back by \<^verbatim>\<open>getTime\<close>.
\<close>

datatype AgentState = Booting | Working | Completed | Stalled | Zombie

datatype HealthAction = ActNone | Escalate | Terminate | Investigate

datatype Verdict = Retry | TerminateVerdict | Extend

record AgentSession =
  agentName :: string
  capability :: string
  beadId :: string
  tmuxSession :: string
  state :: AgentState
  runId :: "string option"
  lastActivity :: int
  escalationLevel :: int
  stalledSince :: "int option"

record HealthCheck =
  hcState :: AgentState
  hcAction :: HealthAction
  reconciliationNote :: "string option"

text \<open>
  Messages that the watchdog hands to the nudge sender. The source builds a text from a
  template; the model keeps the template and its arguments. A sorted, duplicate-free
  list of capabilities (\<^verbatim>\<open>Array.from(new Set(...)).sort()\<close>) is kept as the set it lists.
\<close>

datatype NudgeMessage =
    UnreadMail nat
  | AppearsStalled
  | TriageRecovery
  | PhaseCompleted string nat string string
  | WorkersCompleted nat string "string set"

datatype LogLevel = Debug | Info | Warn | Error

datatype EventData =
    BeadClosedAutocomplete string
  | MailPendingNudge nat bool
  | EscalationEvent int string
  | NudgeEvent bool
  | TriageEvent Verdict
  | RunComplete nat "string list" "string set" string

record Event =
  evRunId :: "string option"
  evAgentName :: string
  evLevel :: LogLevel
  evData :: EventData

text \<open>The \<^verbatim>\<open>type\<close> field of an event's data.\<close>

fun eventType :: "EventData \<Rightarrow> string" where
  "eventType (BeadClosedAutocomplete _) = ''bead_closed_autocomplete''"
| "eventType (MailPendingNudge _ _) = ''mail_pending_nudge''"
| "eventType (EscalationEvent _ _) = ''escalation''"
| "eventType (NudgeEvent _) = ''nudge''"
| "eventType (TriageEvent _) = ''triage''"
| "eventType (RunComplete _ _ _ _) = ''run_complete''"

text \<open>
  Calls to the external collaborators, in the order the watchdog makes them. A call is
  logged when it is made, whether or not it then fails.
\<close>

datatype Effect =
    IsSessionAlive string
  | EvaluateHealth string bool
  | OnHealthCheck HealthCheck
  | RecordFailure string string nat "Verdict option"
  | KillSession string
  | GetUnread string
  | Nudge string NudgeMessage
  | Triage string
  | RecordEvent Event

text \<open>
  What persists between ticks: the session rows, the event log, the run-complete marker
  file (\<open>None\<close> when the file does not exist), and the calls made so far.

  Inside the monitoring loop every assignment to the in-memory session is paired with
  the store write of the same value under the same \<^verbatim>\<open>agentName\<close>
  (\<^verbatim>\<open>store.updateState\<close> with \<^verbatim>\<open>session.state = ...\<close>, \<^verbatim>\<open>store.updateEscalation\<close> with
  \<^verbatim>\<open>session.escalationLevel = ...\<close> and \<^verbatim>\<open>session.stalledSince = ...\<close>), so the model
  keeps one record per row and updates it in place.
\<close>

record World =
  store :: "AgentSession list"
  eventLog :: "Event list"
  marker :: "string option"
  calls :: "Effect list"

text \<open>
  The collaborators and options of one tick. A function returning \<open>None\<close> stands for a
  call that throws (a rejected promise). \<^verbatim>\<open>evaluateHealth\<close> and \<^verbatim>\<open>transitionState\<close>
  are imported from \<^verbatim>\<open>health.ts\<close>; they are parameters here. One tick is taken to
  happen at the instant \<open>now\<close>: \<^verbatim>\<open>new Date()\<close> and \<^verbatim>\<open>Date.now()\<close> read it.
\<close>

record Env =
  now :: int
  nudgeIntervalMs :: int
  tier1Enabled :: bool
  hasOnHealthCheck :: bool
  eventStoreOpen :: bool
  mailStoreOpen :: bool
  isSessionAlive :: "string \<Rightarrow> bool option"
  evaluateHealth :: "AgentSession \<Rightarrow> bool \<Rightarrow> HealthCheck"
  transitionState :: "AgentState \<Rightarrow> HealthCheck \<Rightarrow> AgentState"
  getUnread :: "string \<Rightarrow> nat option"
  nudge :: "string \<Rightarrow> NudgeMessage \<Rightarrow> bool option"
  triage :: "string \<Rightarrow> int \<Rightarrow> Verdict option"
  beadsDirExists :: bool
  bdList :: "string list \<Rightarrow> (string \<times> string) list option"
  currentRunFile :: "string option"
  markerReadable :: bool
  markerWritable :: bool

section \<open>Watchdog helpers\<close>

definition MAX_ESCALATION_LEVEL :: int where
  "MAX_ESCALATION_LEVEL = 3"

definition PERSISTENT_CAPABILITIES :: "string list" where
  "PERSISTENT_CAPABILITIES = [''coordinator'', ''monitor'']"

text \<open>\<^verbatim>\<open>String.prototype.trim\<close> on ASCII text: white space is dropped at both ends.\<close>

definition isSpace :: "char \<Rightarrow> bool" where
  "isSpace c = (c \<in> set [CHR '' '', CHR 0x09, CHR 0x0A, CHR 0x0B, CHR 0x0C, CHR 0x0D])"

definition trim :: "string \<Rightarrow> string" where
  "trim s = rev (dropWhile isSpace (rev (dropWhile isSpace s)))"


text \<open>\<^verbatim>\<open>readCurrentRunId\<close>: \<open>currentRunFile\<close> is \<open>None\<close> for a missing or unreadable file.\<close>

definition readCurrentRunId :: "Env \<Rightarrow> string option" where
  "readCurrentRunId env =
     (case currentRunFile env of
        None \<Rightarrow> None
      | Some text \<Rightarrow> (let trimmed = trim text in if trimmed \<noteq> [] then Some trimmed else None))"

definition called :: "World \<Rightarrow> Effect list \<Rightarrow> World" where
  "called w es = w\<lparr>calls := calls w @ es\<rparr>"

text \<open>
  \<^verbatim>\<open>recordEvent\<close> is fire-and-forget: the call is made, and with no event store (or a
  failing insert) nothing reaches the log and nothing is thrown.
\<close>

definition recordEvent :: "Env \<Rightarrow> World \<Rightarrow> Event \<Rightarrow> World" where
  "recordEvent env w ev =
     (let w1 = called w [RecordEvent ev]
      in if \<not> eventStoreOpen env then w1 else w1\<lparr>eventLog := eventLog w1 @ [ev]\<rparr>)"

definition watchdogEvent :: "Env \<Rightarrow> string \<Rightarrow> LogLevel \<Rightarrow> EventData \<Rightarrow> Event" where
  "watchdogEvent env name lvl d =
     \<lparr>evRunId = readCurrentRunId env, evAgentName = name, evLevel = lvl, evData = d\<rparr>"

text \<open>\<^verbatim>\<open>buildCompletionMessage\<close>.\<close>

definition buildCompletionMessage :: "AgentSession list \<Rightarrow> string \<Rightarrow> NudgeMessage" where
  "buildCompletionMessage workerSessions r =
     (let capabilities = remdups (map capability workerSessions);
          count = length workerSessions
      in if length capabilities = 1 \<and> ''scout'' \<in> set capabilities
           then PhaseCompleted ''scout'' count r ''Ready for next phase.''
         else if length capabilities = 1 \<and> ''builder'' \<in> set capabilities
           then PhaseCompleted ''builder'' count r ''Ready for merge/cleanup.''
         else if length capabilities = 1 \<and> ''reviewer'' \<in> set capabilities
           then PhaseCompleted ''reviewer'' count r ''Reviews done.''
         else if length capabilities = 1 \<and> ''lead'' \<in> set capabilities
           then PhaseCompleted ''lead'' count r ''Ready for merge/cleanup.''
         else if length capabilities = 1 \<and> ''merger'' \<in> set capabilities
           then PhaseCompleted ''merger'' count r ''Merges done.''
         else WorkersCompleted count r (set capabilities))"

section \<open>The escalation ladder\<close>

text \<open>
  \<^verbatim>\<open>Math.min(Math.floor(stalledMs / nudgeIntervalMs), MAX_ESCALATION_LEVEL)\<close>. On integers
  \<^verbatim>\<open>Math.floor(a / b)\<close> is \<open>a div b\<close> when \<open>b \<noteq> 0\<close>. With \<open>b = 0\<close> the quotient is
  \<^verbatim>\<open>Infinity\<close> (capped to the maximum), or \<^verbatim>\<open>NaN\<close> or \<^verbatim>\<open>-Infinity\<close>, which are never
  greater than a stored level: \<open>None\<close> stands for these two.
\<close>

definition expectedLevel :: "int \<Rightarrow> int \<Rightarrow> int option" where
  "expectedLevel stalledMs interval =
     (if interval = 0
      then (if stalledMs > 0 then Some MAX_ESCALATION_LEVEL else None)
      else Some (min (stalledMs div interval) MAX_ESCALATION_LEVEL))"

record ActionResult =
  terminated :: bool
  stateChanged :: bool

definition killIfAlive :: "bool \<Rightarrow> AgentSession \<Rightarrow> Effect list" where
  "killIfAlive tmuxAlive s = (if tmuxAlive then [KillSession (tmuxSession s)] else [])"

text \<open>
  \<^verbatim>\<open>executeEscalationAction\<close>: a switch on the session's level. The result is \<open>None\<close>
  when the triage collaborator throws, which nothing in the function catches.
\<close>

definition executeEscalationAction ::
  "Env \<Rightarrow> AgentSession \<Rightarrow> bool \<Rightarrow> World \<Rightarrow> ActionResult option \<times> World" where
  "executeEscalationAction env s tmuxAlive w =
     (if escalationLevel s = 0 then
        (Some \<lparr>terminated = False, stateChanged = False\<rparr>,
         recordEvent env w (watchdogEvent env (agentName s) Warn (EscalationEvent 0 ''warn'')))
      else if escalationLevel s = 1 then
        (let delivered = (case nudge env (agentName s) AppearsStalled of
                            Some d \<Rightarrow> d | None \<Rightarrow> False);
             w1 = called w [Nudge (agentName s) AppearsStalled]
         in (Some \<lparr>terminated = False, stateChanged = False\<rparr>,
             recordEvent env w1 (watchdogEvent env (agentName s) Warn (NudgeEvent delivered))))
      else if escalationLevel s = 2 then
        (if \<not> tier1Enabled env then (Some \<lparr>terminated = False, stateChanged = False\<rparr>, w)
         else (case triage env (agentName s) (lastActivity s) of
                 None \<Rightarrow> (None, called w [Triage (agentName s)])
               | Some verdict \<Rightarrow>
                   (let w1 = recordEvent env (called w [Triage (agentName s)])
                               (watchdogEvent env (agentName s) Warn (TriageEvent verdict))
                    in if verdict = TerminateVerdict then
                         (Some \<lparr>terminated = True, stateChanged = True\<rparr>,
                          called w1
                            (RecordFailure (agentName s)
                               ''AI triage classified as terminal failure'' 1 (Some verdict)
                             # killIfAlive tmuxAlive s))
                       else if verdict = Retry then
                         (Some \<lparr>terminated = False, stateChanged = False\<rparr>,
                          called w1 [Nudge (agentName s) TriageRecovery])
                       else (Some \<lparr>terminated = False, stateChanged = False\<rparr>, w1))))
      else
        (let w1 = recordEvent env w
                    (watchdogEvent env (agentName s) Error (EscalationEvent 3 ''terminate''))
         in (Some \<lparr>terminated = True, stateChanged = True\<rparr>,
             called w1
               (RecordFailure (agentName s)
                  ''Progressive escalation reached terminal level'' 0 None
                # killIfAlive tmuxAlive s))))"

text \<open>
  The inbox check of the first stall tick (\<^verbatim>\<open>firstStallTick && mailStore\<close>): a failure of
  the unread query or of the nudge is caught.
\<close>

definition firstStallMailCheck :: "Env \<Rightarrow> AgentSession \<Rightarrow> World \<Rightarrow> World" where
  "firstStallMailCheck env s w =
     (if \<not> mailStoreOpen env then w
      else (case getUnread env (agentName s) of
              None \<Rightarrow> called w [GetUnread (agentName s)]
            | Some unreadCount \<Rightarrow>
                (if unreadCount > 0 then
                   (case nudge env (agentName s) (UnreadMail unreadCount) of
                      None \<Rightarrow> called w [GetUnread (agentName s),
                                         Nudge (agentName s) (UnreadMail unreadCount)]
                    | Some delivered \<Rightarrow>
                        recordEvent env
                          (called w [GetUnread (agentName s),
                                     Nudge (agentName s) (UnreadMail unreadCount)])
                          (watchdogEvent env (agentName s) Warn
                             (MailPendingNudge unreadCount delivered)))
                 else called w [GetUnread (agentName s)])))"

text \<open>
  Lines 516 to 565 of \<^verbatim>\<open>runDaemonTick\<close>: first detection stamps the stall, then the
  level advances by elapsed time. \<open>since\<close> is \<^verbatim>\<open>session.stalledSince\<close> after the first
  assignment.
\<close>

definition advanceLevel :: "Env \<Rightarrow> AgentSession \<Rightarrow> AgentSession" where
  "advanceLevel env s =
     (let since = (case stalledSince s of None \<Rightarrow> now env | Some t \<Rightarrow> t);
          s1 = (if stalledSince s = None
                then s\<lparr>stalledSince := Some since, escalationLevel := 0\<rparr> else s);
          stalledMs = now env - since
      in (case expectedLevel stalledMs (nudgeIntervalMs env) of
            None \<Rightarrow> s1
          | Some e \<Rightarrow> (if e > escalationLevel s1 then s1\<lparr>escalationLevel := e\<rparr> else s1)))"

text \<open>
  The \<^verbatim>\<open>escalate\<close> branch. The first component of the result tells whether the
  evaluation threw.
\<close>

definition escalateSession ::
  "Env \<Rightarrow> AgentSession \<Rightarrow> bool \<Rightarrow> World \<Rightarrow> bool \<times> AgentSession \<times> World" where
  "escalateSession env s tmuxAlive w =
     (let w1 = (if stalledSince s = None then firstStallMailCheck env s w else w);
          s2 = advanceLevel env s
      in (case executeEscalationAction env s2 tmuxAlive w1 of
            (None, w2) \<Rightarrow> (True, s2, w2)
          | (Some actionResult, w2) \<Rightarrow>
              (if terminated actionResult
               then (False, s2\<lparr>state := Zombie, escalationLevel := 0, stalledSince := None\<rparr>, w2)
               else (False, s2, w2))))"

section \<open>One session, one tick\<close>

definition beadClosed :: "string list \<Rightarrow> AgentSession \<Rightarrow> bool" where
  "beadClosed closedBeadIds s = (beadId s \<noteq> [] \<and> beadId s \<in> set closedBeadIds)"

text \<open>The body of the loop over the sessions.\<close>

definition monitorSession ::
  "Env \<Rightarrow> string list \<Rightarrow> AgentSession \<Rightarrow> World \<Rightarrow> bool \<times> AgentSession \<times> World" where
  "monitorSession env closedBeadIds s w =
     (if state s = Completed then (False, s, w)
      else if beadClosed closedBeadIds s then
        (False,
         s\<lparr>state := Completed, escalationLevel := 0, stalledSince := None\<rparr>,
         recordEvent env w
           (watchdogEvent env (agentName s) Info (BeadClosedAutocomplete (beadId s))))
      else (case isSessionAlive env (tmuxSession s) of
              None \<Rightarrow> (True, s, called w [IsSessionAlive (tmuxSession s)])
            | Some tmuxAlive \<Rightarrow>
                (let check = evaluateHealth env s tmuxAlive;
                     newState = transitionState env (state s) check;
                     s1 = (if newState \<noteq> state s then s\<lparr>state := newState\<rparr> else s);
                     w1 = called w
                            ([IsSessionAlive (tmuxSession s),
                              EvaluateHealth (agentName s) tmuxAlive]
                             @ (if hasOnHealthCheck env then [OnHealthCheck check] else []))
                 in if hcAction check = Terminate then
                      (False,
                       s1\<lparr>state := Zombie, escalationLevel := 0, stalledSince := None\<rparr>,
                       called w1
                         (RecordFailure (agentName s1)
                            (case reconciliationNote check of
                               Some note \<Rightarrow> note | None \<Rightarrow> ''Process terminated'')
                            0 None
                          # killIfAlive tmuxAlive s1))
                    else if hcAction check = Investigate then (False, s1, w1)
                    else if hcAction check = Escalate then escalateSession env s1 tmuxAlive w1
                    else if hcAction check = ActNone \<and> stalledSince s1 \<noteq> None then
                      (False, s1\<lparr>stalledSince := None, escalationLevel := 0\<rparr>, w1)
                    else (False, s1, w1))))"


section \<open>Run completion\<close>

text \<open>
  \<^verbatim>\<open>checkRunCompletion\<close>. \<^verbatim>\<open>store.getByRun\<close> selects the rows tagged with the run. A
  failing marker read, a failing nudge and a failing marker write are each caught.
\<close>

definition getByRun :: "AgentSession list \<Rightarrow> string \<Rightarrow> AgentSession list" where
  "getByRun rows r = filter (\<lambda>s. runId s = Some r) rows"

definition alreadyNotified :: "Env \<Rightarrow> World \<Rightarrow> string \<Rightarrow> bool" where
  "alreadyNotified env w r =
     (markerReadable env \<and> (case marker w of None \<Rightarrow> False | Some existing \<Rightarrow> trim existing = r))"

definition checkRunCompletion :: "Env \<Rightarrow> string \<Rightarrow> World \<Rightarrow> World" where
  "checkRunCompletion env r w =
     (let runSessions = getByRun (store w) r;
          workerSessions =
            filter (\<lambda>s. capability s \<notin> set PERSISTENT_CAPABILITIES) runSessions
      in if workerSessions = [] then w
         else if \<not> list_all (\<lambda>s. state s = Completed) workerSessions then w
         else if alreadyNotified env w r then w
         else
           (let message = buildCompletionMessage workerSessions r;
                w1 = called w [Nudge ''coordinator'' message];
                capabilitiesArr = remdups (map capability workerSessions);
                phase = (if length capabilitiesArr = 1 then hd capabilitiesArr else ''mixed'');
                w2 = recordEvent env w1
                       \<lparr>evRunId = Some r, evAgentName = ''watchdog'', evLevel = Info,
                        evData = RunComplete (length workerSessions)
                                   (map agentName workerSessions) (set capabilitiesArr) phase\<rparr>
            in if markerWritable env then w2\<lparr>marker := Some r\<rparr> else w2))"

section \<open>The tick and the scheduler\<close>




section \<open>Health evaluation\<close>

text \<open>
  Modelled from the spec: \<^verbatim>\<open>evaluateHealth\<close> and \<^verbatim>\<open>transitionState\<close> live in
  \<^verbatim>\<open>watchdog/health.ts\<close>, which is not among the sources. The table of the spec, with
  \<open>age = now - lastActivity\<close>: a dead terminal on a non-terminal session gives
  terminate and zombie; a live terminal on a zombie gives investigate, state unchanged;
  booting or working below \<open>staleMs\<close> gives none and working; working from \<open>staleMs\<close>
  and below \<open>zombieMs\<close> gives escalate and stalled; stalled in that range gives
  escalate, unchanged; any non-terminal session from \<open>zombieMs\<close> on gives escalate,
  unchanged. A stalled session below \<open>staleMs\<close> has recovered: none and working. Where
  the table has no row the model takes no action and holds the state. The text of the
  reconciliation note is not given; the model leaves the note out. The transition
  applies the state of the check, and investigate holds the current state.
\<close>

record Thresholds =
  staleMs :: int
  zombieMs :: int

definition nonTerminal :: "AgentState \<Rightarrow> bool" where
  "nonTerminal st = (st = Booting \<or> st = Working \<or> st = Stalled)"

definition evaluateHealthSpec :: "int \<Rightarrow> Thresholds \<Rightarrow> AgentSession \<Rightarrow> bool \<Rightarrow> HealthCheck" where
  "evaluateHealthSpec t th s tmuxAlive =
     (let age = t - lastActivity s;
          result = (\<lambda>st a. \<lparr>hcState = st, hcAction = a, reconciliationNote = None\<rparr>)
      in if \<not> tmuxAlive \<and> nonTerminal (state s) then result Zombie Terminate
         else if tmuxAlive \<and> state s = Zombie then result Zombie Investigate
         else if tmuxAlive \<and> nonTerminal (state s) \<and> age \<ge> zombieMs th
           then result (state s) Escalate
         else if tmuxAlive \<and> nonTerminal (state s) \<and> age < staleMs th
           then result Working ActNone
         else if tmuxAlive \<and> state s = Working then result Stalled Escalate
         else if tmuxAlive \<and> state s = Stalled then result Stalled Escalate
         else result (state s) ActNone)"

definition transitionStateSpec :: "AgentState \<Rightarrow> HealthCheck \<Rightarrow> AgentState" where
  "transitionStateSpec current check =
     (if hcAction check = Investigate then current else hcState check)"

section \<open>The mail command\<close>

text \<open>
  The mail subcommands of \<^verbatim>\<open>src/commands/stop.ts\<close> (lines 160 to 1003). Output written
  to the terminal and the \<^verbatim>\<open>mail_sent\<close> events are left out: they change none of the
  stores below.
\<close>

record MailMessage =
  mId :: string
  mFrom :: string
  mTo :: string
  mSubject :: string
  mBody :: string
  mType :: string
  mPriority :: string
  mPayload :: "string option"
  mRead :: bool
  mCreatedAt :: int

record PendingNudge =
  pnFrom :: string
  pnReason :: string
  pnSubject :: string
  pnMessageId :: string
  pnCreatedAt :: int

text \<open>
  The stores the mail command works on: session rows, mail rows, one pending-nudge
  marker file per agent, and the debounce state file.
\<close>

record MailWorld =
  sessions :: "AgentSession list"
  mail :: "MailMessage list"
  pendingNudges :: "string \<rightharpoonup> PendingNudge"
  mailCheckState :: "string \<rightharpoonup> int"

text \<open>
  The numbers of the runtime (IEEE 754 binary64) where they need not be integers: the
  backoff factor of the wait and the poll interval it scales. \<open>Finite x\<close> is the double
  whose value is \<open>x\<close>; the sign of zero is not kept.
\<close>

datatype Number = Finite real | PlusInfinity | MinusInfinity | NaN

text \<open>\<^verbatim>\<open>Math.floor\<close>, \<^verbatim>\<open>Math.min\<close> and \<^verbatim>\<open>Math.max\<close> of two numbers, and \<^verbatim>\<open>a < b\<close>.\<close>

fun mathFloor :: "Number \<Rightarrow> Number" where
  "mathFloor (Finite x) = Finite (of_int \<lfloor>x\<rfloor>)"
| "mathFloor PlusInfinity = PlusInfinity"
| "mathFloor MinusInfinity = MinusInfinity"
| "mathFloor NaN = NaN"

fun mathMin :: "Number \<Rightarrow> Number \<Rightarrow> Number" where
  "mathMin NaN b = NaN"
| "mathMin a NaN = NaN"
| "mathMin MinusInfinity b = MinusInfinity"
| "mathMin a MinusInfinity = MinusInfinity"
| "mathMin PlusInfinity b = b"
| "mathMin a PlusInfinity = a"
| "mathMin (Finite a) (Finite b) = Finite (min a b)"

fun mathMax :: "Number \<Rightarrow> Number \<Rightarrow> Number" where
  "mathMax NaN b = NaN"
| "mathMax a NaN = NaN"
| "mathMax PlusInfinity b = PlusInfinity"
| "mathMax a PlusInfinity = PlusInfinity"
| "mathMax MinusInfinity b = b"
| "mathMax a MinusInfinity = a"
| "mathMax (Finite a) (Finite b) = Finite (max a b)"

fun lessThan :: "Number \<Rightarrow> Number \<Rightarrow> bool" where
  "lessThan NaN b = False"
| "lessThan a NaN = False"
| "lessThan a MinusInfinity = False"
| "lessThan PlusInfinity b = False"
| "lessThan MinusInfinity b = True"
| "lessThan a PlusInfinity = True"
| "lessThan (Finite a) (Finite b) = (a < b)"

text \<open>
  \<^verbatim>\<open>a * b\<close>: the product of two finite numbers is the exact product rounded to a
  double by \<open>nearest\<close> (which gives an infinity on overflow); an infinity times a
  number takes the sign of the product, and is \<^verbatim>\<open>NaN\<close> when the number is zero.
\<close>

fun signOf :: "Number \<Rightarrow> int option" where
  "signOf (Finite x) = Some (if x = 0 then 0 else if x > 0 then 1 else - 1)"
| "signOf PlusInfinity = Some 1"
| "signOf MinusInfinity = Some (- 1)"
| "signOf NaN = None"

fun multiply :: "(real \<Rightarrow> Number) \<Rightarrow> Number \<Rightarrow> Number \<Rightarrow> Number" where
  "multiply nearest (Finite a) (Finite b) = nearest (a * b)"
| "multiply nearest a b =
     (case (signOf a, signOf b) of
        (Some sa, Some sb) \<Rightarrow>
          (if sa * sb = 0 then NaN else if sa * sb > 0 then PlusInfinity else MinusInfinity)
      | _ \<Rightarrow> NaN)"

text \<open>
  What the command takes from outside. \<open>sessionStoreOk\<close> tells whether
  \<^verbatim>\<open>openSessionStore\<close> succeeds; \<open>parseInt\<close> returns \<open>None\<close> for \<^verbatim>\<open>NaN\<close>; \<open>parseFloat\<close> is
  \<^verbatim>\<open>Number.parseFloat\<close>; \<open>nearestDouble\<close> is the rounding of the runtime's arithmetic,
  from a real to the double nearest to it; \<open>validJson\<close> tells whether \<^verbatim>\<open>JSON.parse\<close>
  accepts a text; \<open>newId\<close> is the id the mail client gives the next message;
  \<open>isGroupAddress\<close> and \<open>resolveGroupAddress\<close> are imported from
  \<^verbatim>\<open>mail/broadcast.ts\<close>; \<open>clientReply\<close> is the mail client's \<^verbatim>\<open>reply\<close>, \<open>None\<close> when it
  throws; \<open>envAgentName\<close> is the environment variable \<^verbatim>\<open>OVERSTORY_AGENT_NAME\<close>.
\<close>

record MailEnv =
  clock :: int
  sessionStoreOk :: bool
  parseInt :: "string \<Rightarrow> int option"
  parseFloat :: "string \<Rightarrow> Number"
  nearestDouble :: "real \<Rightarrow> Number"
  validJson :: "string \<Rightarrow> bool"
  newId :: "MailMessage list \<Rightarrow> string"
  isGroupAddress :: "string \<Rightarrow> bool"
  resolveGroupAddress :: "string \<Rightarrow> AgentSession list \<Rightarrow> string \<Rightarrow> string list"
  clientReply :: "string \<Rightarrow> string \<Rightarrow> string \<Rightarrow> MailMessage list \<Rightarrow> (string \<times> MailMessage list) option"
  envAgentName :: "string option"

definition AUTO_NUDGE_TYPES :: "string list" where
  "AUTO_NUDGE_TYPES = [''worker_done'', ''merge_ready'', ''error'', ''escalation'', ''merge_failed'']"

definition VALID_PRIORITIES :: "string list" where
  "VALID_PRIORITIES = [''low'', ''normal'', ''high'', ''urgent'']"

text \<open>
  \<^verbatim>\<open>MAIL_MESSAGE_TYPES\<close> of \<^verbatim>\<open>types.ts\<close> (among the sources as
  \<^verbatim>\<open>src/unnamed/part_004\<close>, lines 444 to 457): the four semantic types and the eight
  protocol types, in the order of the source.
\<close>

definition MAIL_MESSAGE_TYPES :: "string list" where
  "MAIL_MESSAGE_TYPES =
     [''status'', ''question'', ''result'', ''error'', ''worker_done'', ''merge_ready'',
      ''merged'', ''merge_failed'', ''escalation'', ''health_check'', ''dispatch'', ''assign'']"

definition BOOLEAN_FLAGS :: "string list" where
  "BOOLEAN_FLAGS = [''--json'', ''--inject'', ''--unread'', ''--all'', ''--help'', ''-h'']"

text \<open>\<^verbatim>\<open>getFlag\<close>: the argument after the first occurrence of the flag, if there is one.\<close>

fun getFlag :: "string list \<Rightarrow> string \<Rightarrow> string option" where
  "getFlag [] flag = None"
| "getFlag (a # rest) flag =
     (if a = flag then (case rest of [] \<Rightarrow> None | v # _ \<Rightarrow> Some v) else getFlag rest flag)"

definition hasFlag :: "string list \<Rightarrow> string \<Rightarrow> bool" where
  "hasFlag args flag = (flag \<in> set args)"

text \<open>\<^verbatim>\<open>getPositionalArgs\<close>: a flag that is not boolean takes the next argument with it.\<close>

fun getPositionalArgs :: "string list \<Rightarrow> string list" where
  "getPositionalArgs [] = []"
| "getPositionalArgs [a] = (if take 1 a = ''-'' then [] else [a])"
| "getPositionalArgs (a # b # rest) =
     (if take 1 a = ''-''
      then (if a \<in> set BOOLEAN_FLAGS then getPositionalArgs (b # rest)
            else getPositionalArgs rest)
      else a # getPositionalArgs (b # rest))"

text \<open>\<^verbatim>\<open>a ?? b\<close> on optional values, and the truth value of an optional string.\<close>

definition orElse :: "'a option \<Rightarrow> 'a option \<Rightarrow> 'a option" where
  "orElse a b = (case a of Some x \<Rightarrow> Some x | None \<Rightarrow> b)"

definition truthy :: "string option \<Rightarrow> bool" where
  "truthy v = (case v of None \<Rightarrow> False | Some t \<Rightarrow> t \<noteq> [])"

subsection \<open>Session store and mail client\<close>

text \<open>
  Modelled from the spec: the session store (\<^verbatim>\<open>sessions/compat.ts\<close>) is not among the
  sources. The spec gives \<open>GetByName(name)\<close>, a session or nothing; \<open>GetActive()\<close>, the
  sessions whose state is booting, working or stalled; and \<open>UpdateState(name, state)\<close>
  and \<open>UpdateLastActivity(name, now)\<close>, each a single write to the row of that name.
\<close>

definition getByName :: "AgentSession list \<Rightarrow> string \<Rightarrow> AgentSession option" where
  "getByName rows name = find (\<lambda>s. agentName s = name) rows"

definition getActive :: "AgentSession list \<Rightarrow> AgentSession list" where
  "getActive rows = filter (\<lambda>s. state s = Booting \<or> state s = Working \<or> state s = Stalled) rows"

definition updateState :: "AgentSession list \<Rightarrow> string \<Rightarrow> AgentState \<Rightarrow> AgentSession list" where
  "updateState rows name st = map (\<lambda>s. if agentName s = name then s\<lparr>state := st\<rparr> else s) rows"

definition updateLastActivity :: "AgentSession list \<Rightarrow> string \<Rightarrow> int \<Rightarrow> AgentSession list" where
  "updateLastActivity rows name t =
     map (\<lambda>s. if agentName s = name then s\<lparr>lastActivity := t\<rparr> else s) rows"

text \<open>
  Modelled from the spec: the mail client (\<^verbatim>\<open>mail/client.ts\<close>) is not among the sources.
  \<open>Send\<close> stores a new unread message and returns its id; \<open>Check(agent)\<close> returns the
  unread messages addressed to the agent and marks them read.
\<close>

definition unreadFor :: "string \<Rightarrow> MailMessage \<Rightarrow> bool" where
  "unreadFor agent m = (mTo m = agent \<and> \<not> mRead m)"

definition clientCheck :: "MailMessage list \<Rightarrow> string \<Rightarrow> MailMessage list \<times> MailMessage list" where
  "clientCheck rows agent =
     (filter (unreadFor agent) rows,
      map (\<lambda>m. if unreadFor agent m then m\<lparr>mRead := True\<rparr> else m) rows)"

definition clientSend ::
  "MailEnv \<Rightarrow> MailMessage list \<Rightarrow> string \<Rightarrow> string \<Rightarrow> string \<Rightarrow> string \<Rightarrow> string \<Rightarrow> string
     \<Rightarrow> string option \<Rightarrow> string \<times> MailMessage list" where
  "clientSend env rows sender recipient subject body type priority payload =
     (let i = newId env rows
      in (i, rows @ [\<lparr>mId = i, mFrom = sender, mTo = recipient, mSubject = subject,
                     mBody = body, mType = type, mPriority = priority, mPayload = payload,
                     mRead = False, mCreatedAt = clock env\<rparr>]))"

subsection \<open>Heartbeat and nudge markers\<close>

text \<open>
  \<^verbatim>\<open>touchAgentSession\<close>: best effort; a failure to open the store is swallowed, an
  unknown agent and a zombie or completed session are left alone.
\<close>

definition touchAgentSession :: "MailEnv \<Rightarrow> MailWorld \<Rightarrow> string \<Rightarrow> MailWorld" where
  "touchAgentSession env w name =
     (if \<not> sessionStoreOk env then w
      else (case getByName (sessions w) name of
              None \<Rightarrow> w
            | Some session \<Rightarrow>
                (if state session = Zombie \<or> state session = Completed then w
                 else (let rows1 = updateLastActivity (sessions w) name (clock env);
                           rows2 = (if state session = Booting \<or> state session = Stalled
                                    then updateState rows1 name Working else rows1)
                       in w\<lparr>sessions := rows2\<rparr>))))"

text \<open>\<^verbatim>\<open>writePendingNudge\<close>: the marker file of the agent is written anew.\<close>

definition writePendingNudge ::
  "MailEnv \<Rightarrow> MailWorld \<Rightarrow> string \<Rightarrow> string \<Rightarrow> string \<Rightarrow> string \<Rightarrow> string \<Rightarrow> MailWorld" where
  "writePendingNudge env w name sender reason subject messageId =
     w\<lparr>pendingNudges := (pendingNudges w)
          (name \<mapsto> \<lparr>pnFrom = sender, pnReason = reason, pnSubject = subject,
                     pnMessageId = messageId, pnCreatedAt = clock env\<rparr>)\<rparr>"

text \<open>\<^verbatim>\<open>readAndClearPendingNudge\<close>: the marker, if any, and the file removed.\<close>

definition readAndClearPendingNudge ::
  "MailWorld \<Rightarrow> string \<Rightarrow> PendingNudge option \<times> MailWorld" where
  "readAndClearPendingNudge w name =
     (case pendingNudges w name of
        None \<Rightarrow> (None, w)
      | Some n \<Rightarrow> (Some n, w\<lparr>pendingNudges := (pendingNudges w)(name := None)\<rparr>))"

definition isMailCheckDebounced :: "MailEnv \<Rightarrow> MailWorld \<Rightarrow> string \<Rightarrow> int \<Rightarrow> bool" where
  "isMailCheckDebounced env w name debounceMs =
     (case mailCheckState w name of
        None \<Rightarrow> False
      | Some lastCheck \<Rightarrow> clock env - lastCheck < debounceMs)"

definition recordMailCheck :: "MailEnv \<Rightarrow> MailWorld \<Rightarrow> string \<Rightarrow> MailWorld" where
  "recordMailCheck env w name = w\<lparr>mailCheckState := (mailCheckState w)(name \<mapsto> clock env)\<rparr>"

definition resolveAgentName :: "MailEnv \<Rightarrow> string list \<Rightarrow> string" where
  "resolveAgentName env args =
     (if truthy (map_option trim (getFlag args ''--agent''))
      then trim (case getFlag args ''--agent'' of Some a \<Rightarrow> a | None \<Rightarrow> [])
      else if truthy (map_option trim (envAgentName env))
      then trim (case envAgentName env of Some a \<Rightarrow> a | None \<Rightarrow> [])
      else ''orchestrator'')"

definition resolveAgentCapability :: "MailEnv \<Rightarrow> MailWorld \<Rightarrow> string \<Rightarrow> string option" where
  "resolveAgentCapability env w name =
     (if \<not> sessionStoreOk env then None
      else map_option capability (getByName (sessions w) name))"

subsection \<open>send, check, reply\<close>

text \<open>
  A command either returns or throws; what it wrote before throwing stays written, so
  the stores are returned in both cases. \<open>ValidationError\<close> carries the \<^verbatim>\<open>field\<close> of the
  source's error.
\<close>

datatype CmdError = ValidationError string | MailError | StoreError

definition shouldNudge :: "string \<Rightarrow> string \<Rightarrow> bool" where
  "shouldNudge priority type =
     (priority = ''urgent'' \<or> priority = ''high'' \<or> type \<in> set AUTO_NUDGE_TYPES)"

definition nudgeReason :: "string \<Rightarrow> string \<Rightarrow> string" where
  "nudgeReason priority type =
     (if type \<in> set AUTO_NUDGE_TYPES then type else priority @ '' priority'')"

text \<open>
  One message to one recipient: \<^verbatim>\<open>client.send\<close> followed by the auto-nudge. The source
  has this sequence twice, in the broadcast loop and for a single recipient.
\<close>

definition sendOne ::
  "MailEnv \<Rightarrow> string \<Rightarrow> string \<Rightarrow> string \<Rightarrow> string \<Rightarrow> string \<Rightarrow> string option
     \<Rightarrow> string \<Rightarrow> MailWorld \<Rightarrow> string \<times> MailWorld" where
  "sendOne env sender subject body type priority payload recipient w =
     (case clientSend env (mail w) sender recipient subject body type priority payload of
        (i, rows) \<Rightarrow>
          (let w1 = w\<lparr>mail := rows\<rparr>
           in if shouldNudge priority type
              then (i, writePendingNudge env w1 recipient sender
                         (nudgeReason priority type) subject i)
              else (i, w1)))"

fun sendAll ::
  "MailEnv \<Rightarrow> string \<Rightarrow> string \<Rightarrow> string \<Rightarrow> string \<Rightarrow> string \<Rightarrow> string option
     \<Rightarrow> string list \<Rightarrow> MailWorld \<Rightarrow> string list \<times> MailWorld" where
  "sendAll env sender subject body type priority payload [] w = ([], w)"
| "sendAll env sender subject body type priority payload (recipient # others) w =
     (case sendOne env sender subject body type priority payload recipient w of
        (i, w1) \<Rightarrow>
          (case sendAll env sender subject body type priority payload others w1 of
             (ids, w2) \<Rightarrow> (i # ids, w2)))"

text \<open>
  \<^verbatim>\<open>getFlag(args, flag) ?? dflt\<close>, and the sender of a send or a reply:
  \<^verbatim>\<open>getFlag(args, "--agent") ?? getFlag(args, "--from") ?? "orchestrator"\<close>.
\<close>

definition flagOr :: "string list \<Rightarrow> string \<Rightarrow> string \<Rightarrow> string" where
  "flagOr args flag dflt = (case getFlag args flag of Some v \<Rightarrow> v | None \<Rightarrow> dflt)"

definition senderOf :: "string list \<Rightarrow> string" where
  "senderOf args =
     (case orElse (getFlag args ''--agent'') (getFlag args ''--from'') of
        Some a \<Rightarrow> a | None \<Rightarrow> ''orchestrator'')"

text \<open>\<^verbatim>\<open>handleSend\<close>. The result lists the ids of the messages produced.\<close>

definition handleSend ::
  "MailEnv \<Rightarrow> string list \<Rightarrow> MailWorld \<Rightarrow> (CmdError + string list) \<times> MailWorld" where
  "handleSend env args w =
     (let recipient = getFlag args ''--to'';
          subject = getFlag args ''--subject'';
          body = getFlag args ''--body'';
          sender = senderOf args;
          rawPayload = getFlag args ''--payload'';
          rawType = flagOr args ''--type'' ''status'';
          rawPriority = flagOr args ''--priority'' ''normal''
      in if rawType \<notin> set MAIL_MESSAGE_TYPES then (Inl (ValidationError ''type''), w)
         else if rawPriority \<notin> set VALID_PRIORITIES then (Inl (ValidationError ''priority''), w)
         else
           (let w1 = touchAgentSession env w sender
            in if (case rawPayload of None \<Rightarrow> False | Some p \<Rightarrow> \<not> validJson env p)
                 then (Inl (ValidationError ''payload''), w1)
               else if \<not> truthy recipient then (Inl (ValidationError ''to''), w1)
               else if \<not> truthy subject then (Inl (ValidationError ''subject''), w1)
               else if \<not> truthy body then (Inl (ValidationError ''body''), w1)
               else
                 (let to = (case recipient of Some t \<Rightarrow> t | None \<Rightarrow> []);
                      subj = (case subject of Some t \<Rightarrow> t | None \<Rightarrow> []);
                      text = (case body of Some t \<Rightarrow> t | None \<Rightarrow> [])
                  in if isGroupAddress env to then
                       (if \<not> sessionStoreOk env then (Inl StoreError, w1)
                        else (case sendAll env sender subj text rawType rawPriority rawPayload
                                     (resolveGroupAddress env to (getActive (sessions w1)) sender)
                                     w1 of
                                (ids, w2) \<Rightarrow> (Inr ids, w2)))
                     else (case sendOne env sender subj text rawType rawPriority rawPayload
                                  to w1 of
                             (i, w2) \<Rightarrow> (Inr [i], w2)))))"

text \<open>
  \<^verbatim>\<open>handleCheck\<close>. The result is the pending nudge shown as a banner (with
  \<^verbatim>\<open>--inject\<close>) and the messages delivered; a debounced check returns nothing.
\<close>

definition handleCheck ::
  "MailEnv \<Rightarrow> string list \<Rightarrow> MailWorld
     \<Rightarrow> (CmdError + PendingNudge option \<times> MailMessage list) \<times> MailWorld" where
  "handleCheck env args w =
     (let agent = resolveAgentName env args;
          inject = hasFlag args ''--inject'';
          debounceFlag = getFlag args ''--debounce'';
          parsed = (case debounceFlag of None \<Rightarrow> None | Some f \<Rightarrow> parseInt env f)
      in if debounceFlag \<noteq> None \<and> (case parsed of None \<Rightarrow> True | Some d \<Rightarrow> d < 0)
           then (Inl (ValidationError ''debounce''), w)
         else if (case parsed of None \<Rightarrow> False | Some d \<Rightarrow> isMailCheckDebounced env w agent d)
           then (Inr (None, []), w)
         else
           (let w1 = touchAgentSession env w agent;
                (pendingNudge, w2) = (if inject then readAndClearPendingNudge w1 agent
                                      else (None, w1));
                (messages, rows) = clientCheck (mail w2) agent;
                w3 = w2\<lparr>mail := rows\<rparr>;
                w4 = (if parsed \<noteq> None then recordMailCheck env w3 agent else w3)
            in (Inr (pendingNudge, messages), w4)))"

text \<open>\<^verbatim>\<open>handleReply\<close>.\<close>

definition handleReply ::
  "MailEnv \<Rightarrow> string list \<Rightarrow> MailWorld \<Rightarrow> (CmdError + string) \<times> MailWorld" where
  "handleReply env args w =
     (let positional = getPositionalArgs args;
          body = getFlag args ''--body'';
          sender = senderOf args;
          w1 = touchAgentSession env w sender
      in if \<not> truthy (case positional of [] \<Rightarrow> None | i # _ \<Rightarrow> Some i)
           then (Inl (ValidationError ''id''), w1)
         else if \<not> truthy body then (Inl (ValidationError ''body''), w1)
         else (case clientReply env (hd positional)
                      (case body of Some t \<Rightarrow> t | None \<Rightarrow> []) sender (mail w1) of
                 None \<Rightarrow> (Inl MailError, w1)
               | Some (replyId, rows) \<Rightarrow> (Inr replyId, w1\<lparr>mail := rows\<rparr>)))"

subsection \<open>The long-poll wait\<close>

datatype WaitStatus = GotMessage | Timeout | Cancelled | Nudged

record MailWaitResult =
  status :: WaitStatus
  messages :: "MailMessage list"
  waitedMs :: int
  polls :: nat
  resultCancelFile :: "string option"
  resultNudge :: "PendingNudge option"

record MailWaitOptions =
  agent :: string
  timeoutMs :: int
  initialPollMs :: int
  maxPollMs :: int
  backoff :: Number
  cancelFile :: "string option"
  wakeOnPendingNudge :: bool

text \<open>
  What the outside does around one poll: whether the cancel file exists when the
  iteration looks for it, the time \<^verbatim>\<open>Date.now()\<close> gives in that iteration, and the mail
  and the marker that other processes have written for the agent since the last poll.
\<close>

record Poll =
  cancelFileExists :: bool
  pollClock :: int
  arrivedMail :: "MailMessage list"
  arrivedNudge :: "PendingNudge option"

definition arrive :: "string \<Rightarrow> Poll \<Rightarrow> MailWorld \<Rightarrow> MailWorld" where
  "arrive name p w =
     w\<lparr>mail := mail w @ arrivedMail p,
        pendingNudges := (case arrivedNudge p of
                            None \<Rightarrow> pendingNudges w
                          | Some n \<Rightarrow> (pendingNudges w)(name \<mapsto> n))\<rparr>"

text \<open>
  One iteration of the loop of \<^verbatim>\<open>waitForMail\<close>: it returns a result, or it sleeps
  (\<open>Sleep sleepMs pollMs\<close>) and goes on with a new poll interval. The poll interval is a
  number of the runtime: it starts as the integer \<^verbatim>\<open>options.initialPollMs\<close> and is then
  computed from the product \<^verbatim>\<open>pollMs * options.backoff\<close>.
\<close>

datatype WaitStep = Return MailWaitResult | Sleep Number Number

definition waitIteration ::
  "MailEnv \<Rightarrow> MailWaitOptions \<Rightarrow> int \<Rightarrow> Number \<Rightarrow> nat \<Rightarrow> Poll \<Rightarrow> MailWorld \<Rightarrow> WaitStep \<times> MailWorld" where
  "waitIteration env options startedAt pollMs polls0 p w =
     (if truthy (cancelFile options) \<and> cancelFileExists p then
        (Return \<lparr>status = Cancelled, messages = [], waitedMs = pollClock p - startedAt,
                 polls = polls0, resultCancelFile = cancelFile options, resultNudge = None\<rparr>, w)
      else
        (let (pendingNudge, w1) = (if wakeOnPendingNudge options
                                   then readAndClearPendingNudge w (agent options)
                                   else (None, w));
             (inbox, rows) = clientCheck (mail w1) (agent options);
             polls1 = polls0 + 1;
             w2 = touchAgentSession (env\<lparr>clock := pollClock p\<rparr>) (w1\<lparr>mail := rows\<rparr>)
                    (agent options)
         in if length inbox > 0 then
              (Return \<lparr>status = GotMessage, messages = inbox,
                       waitedMs = pollClock p - startedAt, polls = polls1,
                       resultCancelFile = cancelFile options, resultNudge = pendingNudge\<rparr>, w2)
            else if pendingNudge \<noteq> None then
              (Return \<lparr>status = Nudged, messages = [],
                       waitedMs = pollClock p - startedAt, polls = polls1,
                       resultCancelFile = cancelFile options, resultNudge = pendingNudge\<rparr>, w2)
            else
              (let elapsedMs = pollClock p - startedAt
               in if elapsedMs \<ge> timeoutMs options then
                    (Return \<lparr>status = Timeout, messages = [], waitedMs = elapsedMs,
                             polls = polls1, resultCancelFile = cancelFile options,
                             resultNudge = None\<rparr>, w2)
                  else
                    (let remainingMs = timeoutMs options - elapsedMs;
                         sleepMs = mathMin pollMs (Finite (of_int remainingMs))
                     in (Sleep sleepMs
                           (mathMin (Finite (of_int (maxPollMs options)))
                              (mathMax (Finite (of_int (initialPollMs options)))
                                 (mathFloor
                                    (multiply (nearestDouble env) pollMs (backoff options))))),
                         w2)))))"

text \<open>
  The loop, run against the polls the outside provides. With no poll left the wait has
  not returned yet: the result is \<open>None\<close>. The sleeps are returned in order.
\<close>

fun waitLoop ::
  "MailEnv \<Rightarrow> MailWaitOptions \<Rightarrow> int \<Rightarrow> Number \<Rightarrow> nat \<Rightarrow> Poll list \<Rightarrow> MailWorld
     \<Rightarrow> MailWaitResult option \<times> Number list \<times> MailWorld" where
  "waitLoop env options startedAt pollMs polls0 [] w = (None, [], w)"
| "waitLoop env options startedAt pollMs polls0 (p # later) w =
     (case waitIteration env options startedAt pollMs polls0 p (arrive (agent options) p w) of
        (Return r, w1) \<Rightarrow> (Some r, [], w1)
      | (Sleep sleepMs pollMs1, w1) \<Rightarrow>
          (case waitLoop env options startedAt pollMs1 (polls0 + 1) later w1 of
             (r, sleeps, w2) \<Rightarrow> (r, sleepMs # sleeps, w2)))"

definition waitForMail ::
  "MailEnv \<Rightarrow> MailWaitOptions \<Rightarrow> Poll list \<Rightarrow> MailWorld
     \<Rightarrow> MailWaitResult option \<times> Number list \<times> MailWorld" where
  "waitForMail env options script w =
     waitLoop env options (clock env) (Finite (of_int (initialPollMs options))) 0 script
       (touchAgentSession env w (agent options))"

text \<open>
  \<^verbatim>\<open>handleWait\<close>: the flags are parsed and checked, then the wait runs. The backoff is
  refused when it is \<^verbatim>\<open>NaN\<close> or less than 1; an infinite backoff passes.
\<close>

definition numberFlag :: "MailEnv \<Rightarrow> string option \<Rightarrow> int \<Rightarrow> int option" where
  "numberFlag env flag dflt =
     (case flag of
        None \<Rightarrow> Some dflt
      | Some t \<Rightarrow> (if t \<noteq> [] then parseInt env t else Some dflt))"

definition backoffFlag :: "MailEnv \<Rightarrow> string option \<Rightarrow> Number" where
  "backoffFlag env flag =
     (case flag of
        None \<Rightarrow> Finite (3 / 2)
      | Some t \<Rightarrow> (if t \<noteq> [] then parseFloat env t else Finite (3 / 2)))"

definition wakeFor :: "MailEnv \<Rightarrow> MailWorld \<Rightarrow> string \<Rightarrow> bool" where
  "wakeFor env w name =
     (let capability = resolveAgentCapability env w name
      in capability = Some ''coordinator'' \<or> capability = Some ''lead''
         \<or> name = ''coordinator'')"

definition handleWait ::
  "MailEnv \<Rightarrow> string list \<Rightarrow> Poll list \<Rightarrow> MailWorld
     \<Rightarrow> (CmdError + MailWaitResult option \<times> Number list) \<times> MailWorld" where
  "handleWait env args script w =
     (let name = resolveAgentName env args;
          timeoutFlag = orElse (getFlag args ''--timeout-ms'') (getFlag args ''--timeout'');
          pollFlag = orElse (getFlag args ''--poll-ms'') (getFlag args ''--poll'');
          maxPollFlag = getFlag args ''--max-poll-ms''
      in (case numberFlag env timeoutFlag 300000 of
            None \<Rightarrow> (Inl (ValidationError ''timeout-ms''), w)
          | Some timeoutV \<Rightarrow>
        if timeoutV < 0 then (Inl (ValidationError ''timeout-ms''), w) else
         (case numberFlag env pollFlag 1000 of
            None \<Rightarrow> (Inl (ValidationError ''poll-ms''), w)
          | Some initialPollV \<Rightarrow>
        if initialPollV \<le> 0 then (Inl (ValidationError ''poll-ms''), w) else
         (case numberFlag env maxPollFlag 10000 of
            None \<Rightarrow> (Inl (ValidationError ''max-poll-ms''), w)
          | Some maxPollV \<Rightarrow>
        if maxPollV \<le> 0 then (Inl (ValidationError ''max-poll-ms''), w)
        else if maxPollV < initialPollV then (Inl (ValidationError ''max-poll-ms''), w) else
         (let backoffV = backoffFlag env (getFlag args ''--backoff'')
          in
        if backoffV = NaN \<or> lessThan backoffV (Finite 1)
          then (Inl (ValidationError ''backoff''), w) else
         (case waitForMail env
                 \<lparr>agent = name, timeoutMs = timeoutV, initialPollMs = initialPollV,
                  maxPollMs = maxPollV, backoff = backoffV,
                  cancelFile = getFlag args ''--cancel-file'',
                  wakeOnPendingNudge = wakeFor env w name\<rparr>
                 script w of
            (r, sleeps, w1) \<Rightarrow> (Inr (r, sleeps), w1)))))))"

section \<open>Vocabulary of the properties\<close>

text \<open>
  The level the ladder reaches on a tick at which the stall began at \<open>t\<close>: the stored
  level, or the level the elapsed time calls for when that is higher.
\<close>

definition ladderLevel :: "Env \<Rightarrow> AgentSession \<Rightarrow> int \<Rightarrow> int" where
  "ladderLevel env s t =
     max (escalationLevel s) (min ((now env - t) div nudgeIntervalMs env) 3)"

text \<open>
  Whether the action at level \<open>lvl\<close> ends with \<^verbatim>\<open>terminated: true\<close>: never at levels 0
  and 1, at level 2 when triage is enabled and answers terminate, always otherwise.
\<close>

definition ladderTerminates :: "Env \<Rightarrow> AgentSession \<Rightarrow> int \<Rightarrow> bool" where
  "ladderTerminates env s lvl =
     (if lvl = 0 \<or> lvl = 1 then False
      else if lvl = 2 then tier1Enabled env \<and> triage env (agentName s) (lastActivity s) = Some TerminateVerdict
      else True)"

definition noNudgeNoTriage :: "Effect \<Rightarrow> bool" where
  "noNudgeNoTriage c = (case c of Nudge _ _ \<Rightarrow> False | Triage _ \<Rightarrow> False | _ \<Rightarrow> True)"




text \<open>
  Counting the run-completion notifications of a run: the nudges to the coordinator
  that carry a completion message for it, the \<open>run_complete\<close> events handed to
  \<^verbatim>\<open>recordEvent\<close> and those that reached the log; and the marker file naming the run.
\<close>

fun completionRun :: "NudgeMessage \<Rightarrow> string option" where
  "completionRun (PhaseCompleted _ _ r _) = Some r"
| "completionRun (WorkersCompleted _ r _) = Some r"
| "completionRun _ = None"

fun isCompletionNudge :: "string \<Rightarrow> Effect \<Rightarrow> bool" where
  "isCompletionNudge r (Nudge recipient m) =
     (recipient = ''coordinator'' \<and> completionRun m = Some r)"
| "isCompletionNudge r _ = False"

definition isRunCompleteEvent :: "string \<Rightarrow> Event \<Rightarrow> bool" where
  "isRunCompleteEvent r ev = (evRunId ev = Some r \<and> eventType (evData ev) = ''run_complete'')"

fun isRunCompleteEmit :: "string \<Rightarrow> Effect \<Rightarrow> bool" where
  "isRunCompleteEmit r (RecordEvent ev) = isRunCompleteEvent r ev"
| "isRunCompleteEmit r _ = False"

definition notifications ::
  "string \<Rightarrow> World \<Rightarrow> string option \<times> Effect list \<times> Effect list \<times> Event list" where
  "notifications r w =
     (marker w, filter (isCompletionNudge r) (calls w), filter (isRunCompleteEmit r) (calls w),
      filter (isRunCompleteEvent r) (eventLog w))"

definition completionNudges :: "string \<Rightarrow> World \<Rightarrow> nat" where
  "completionNudges r w = length (filter (isCompletionNudge r) (calls w))"

definition runCompleteEmits :: "string \<Rightarrow> World \<Rightarrow> nat" where
  "runCompleteEmits r w = length (filter (isRunCompleteEmit r) (calls w))"

definition runCompleteLogged :: "string \<Rightarrow> World \<Rightarrow> nat" where
  "runCompleteLogged r w = length (filter (isRunCompleteEvent r) (eventLog w))"


definition alreadyMarked :: "string \<Rightarrow> World \<Rightarrow> bool" where
  "alreadyMarked r w = (case marker w of None \<Rightarrow> False | Some existing \<Rightarrow> trim existing = r)"

text \<open>
  For the mail command: the recipients of a send (the members of a group address, or
  the one address), what a marker written by that send must hold, when a check returns
  before doing anything (a rejected debounce flag, or a debounced check), and the
  session after a heartbeat.
\<close>

definition recipientsOf :: "MailEnv \<Rightarrow> string list \<Rightarrow> MailWorld \<Rightarrow> string list" where
  "recipientsOf env args w =
     (if isGroupAddress env (flagOr args ''--to'' [])
      then resolveGroupAddress env (flagOr args ''--to'' [])
             (getActive (sessions (touchAgentSession env w (senderOf args)))) (senderOf args)
      else [flagOr args ''--to'' []])"

definition markerFor ::
  "MailEnv \<Rightarrow> string list \<Rightarrow> string list \<Rightarrow> PendingNudge \<Rightarrow> bool" where
  "markerFor env args ids n =
     (pnFrom n = senderOf args
      \<and> pnReason n = nudgeReason (flagOr args ''--priority'' ''normal'') (flagOr args ''--type'' ''status'')
      \<and> pnSubject n = flagOr args ''--subject'' []
      \<and> pnMessageId n \<in> set ids
      \<and> pnCreatedAt n = clock env)"

definition checkSkipped :: "MailEnv \<Rightarrow> string list \<Rightarrow> MailWorld \<Rightarrow> bool" where
  "checkSkipped env args w =
     (case getFlag args ''--debounce'' of
        None \<Rightarrow> False
      | Some f \<Rightarrow>
          (case parseInt env f of
             None \<Rightarrow> True
           | Some d \<Rightarrow> d < 0 \<or> isMailCheckDebounced env w (resolveAgentName env args) d))"

definition heartbeat :: "MailEnv \<Rightarrow> AgentSession \<Rightarrow> AgentSession" where
  "heartbeat env s =
     s\<lparr>lastActivity := clock env,
       state := (if state s = Booting \<or> state s = Stalled then Working else state s)\<rparr>"

text \<open>The calls made between two states of the world.\<close>

definition newCalls :: "World \<Rightarrow> World \<Rightarrow> Effect list" where
  "newCalls w w' = drop (length (calls w)) (calls w')"

section \<open>Example runs\<close>

text \<open>
  The second scenario of the spec: a builder last active eleven minutes before the
  first tick at time 1000000, thresholds of five and twenty minutes, one minute between
  ladder levels, triage disabled, no unread mail, every terminal alive. The tracker
  reports the ticket \<open>xyz-1\<close> closed.
\<close>

definition envAt :: "int \<Rightarrow> Env" where
  "envAt t =
     \<lparr>now = t, nudgeIntervalMs = 60000, tier1Enabled = False, hasOnHealthCheck = True,
      eventStoreOpen = True, mailStoreOpen = True,
      isSessionAlive = (\<lambda>_. Some True),
      evaluateHealth = evaluateHealthSpec t \<lparr>staleMs = 300000, zombieMs = 1200000\<rparr>,
      transitionState = transitionStateSpec,
      getUnread = (\<lambda>_. Some 0),
      nudge = (\<lambda>_ _. Some True),
      triage = (\<lambda>_ _. Some Extend),
      beadsDirExists = True,
      bdList = (\<lambda>_. Some [(''xyz-1'', ''closed'')]),
      currentRunFile = Some ''run-1'',
      markerReadable = True, markerWritable = True\<rparr>"

definition builder1 :: AgentSession where
  "builder1 =
     \<lparr>agentName = ''builder-1'', capability = ''builder'', beadId = ''xyz-2'',
      tmuxSession = ''overstory-builder-1'', state = Working, runId = Some ''run-1'',
      lastActivity = 340000, escalationLevel = 0, stalledSince = None\<rparr>"

definition emptyWorld :: World where
  "emptyWorld = \<lparr>store = [], eventLog = [], marker = None, calls = []\<rparr>"

definition stalledBuilder1 :: AgentSession where
  "stalledBuilder1 = builder1\<lparr>state := Stalled, stalledSince := Some 1000000\<rparr>"







text \<open>
  A mail setting: a working lead, a stalled builder and a zombie; markers are pending
  for the lead, for the builder and for the name \<open>coordinator\<close>, which has no session;
  the builder last checked its mail one second before the clock. The backoff flag
  \<open>1.7\<close> parses to the double nearest to 1.7. Every product of the examples is a double
  but one: ten times that backoff lies between two doubles and is rounded to the nearer
  one, 17.
\<close>

definition mailEnv :: MailEnv where
  "mailEnv =
     \<lparr>clock = 5000, sessionStoreOk = True,
      parseInt = (\<lambda>t. if t = ''30000'' then Some 30000 else None),
      parseFloat = (\<lambda>t. if t = ''1.7'' then Finite (7656119366529843 / 4503599627370496) else NaN),
      nearestDouble =
        (\<lambda>x. if x = 10 * (7656119366529843 / 4503599627370496) then Finite 17 else Finite x),
      validJson = (\<lambda>t. True),
      newId = (\<lambda>rows. ''msg-'' @ replicate (length rows) (CHR ''i'')),
      isGroupAddress = (\<lambda>a. take 1 a = ''@''),
      resolveGroupAddress = (\<lambda>g active sender. filter (\<lambda>n. n \<noteq> sender) (map agentName active)),
      clientReply = (\<lambda>i b f rows. None),
      envAgentName = None\<rparr>"

definition agentRow :: "string \<Rightarrow> string \<Rightarrow> AgentState \<Rightarrow> AgentSession" where
  "agentRow name cap st =
     \<lparr>agentName = name, capability = cap, beadId = [], tmuxSession = ''overstory-'' @ name,
      state = st, runId = Some ''run-1'', lastActivity = 100, escalationLevel = 0,
      stalledSince = None\<rparr>"

definition oldMarker :: PendingNudge where
  "oldMarker =
     \<lparr>pnFrom = ''scout-1'', pnReason = ''high priority'', pnSubject = ''earlier'',
      pnMessageId = ''msg-old'', pnCreatedAt = 50\<rparr>"

definition mailWorld :: MailWorld where
  "mailWorld =
     \<lparr>sessions = [agentRow ''lead-1'' ''lead'' Working, agentRow ''builder-9'' ''builder'' Stalled,
                  agentRow ''zombie-7'' ''builder'' Zombie],
      mail = [],
      pendingNudges = [''lead-1'' \<mapsto> oldMarker, ''coordinator'' \<mapsto> oldMarker,
                       ''builder-9'' \<mapsto> oldMarker],
      mailCheckState = [''builder-9'' \<mapsto> 4000]\<rparr>"

definition doneArgs :: "string list" where
  "doneArgs = [''--to'', ''lead-1'', ''--subject'', ''done'', ''--body'', ''finished'',
               ''--type'', ''worker_done'', ''--agent'', ''builder-9'']"

definition zombieArgs :: "string list" where
  "zombieArgs = [''--to'', ''lead-1'', ''--subject'', ''hello'', ''--body'', ''still here'',
                 ''--agent'', ''zombie-7'']"

definition debouncedArgs :: "string list" where
  "debouncedArgs = [''--agent'', ''builder-9'', ''--debounce'', ''30000'']"

definition quietPoll :: Poll where
  "quietPoll = \<lparr>cancelFileExists = False, pollClock = 5001, arrivedMail = [], arrivedNudge = None\<rparr>"

text \<open>
  A wait of ten seconds that starts at a poll interval of 10 ms with the backoff flag
  \<open>1.7\<close>, that is, the double nearest to 1.7, which is a little below it.
\<close>

definition slowBackoff :: MailWaitOptions where
  "slowBackoff =
     \<lparr>agent = ''builder-9'', timeoutMs = 10000, initialPollMs = 10, maxPollMs = 100,
      backoff = Finite (7656119366529843 / 4503599627370496), cancelFile = None,
      wakeOnPendingNudge = False\<rparr>"

definition waitOptions :: "string \<Rightarrow> bool \<Rightarrow> MailWaitOptions" where
  "waitOptions name wake =
     \<lparr>agent = name, timeoutMs = 10000, initialPollMs = 1000, maxPollMs = 10000,
      backoff = Finite (3 / 2), cancelFile = None, wakeOnPendingNudge = wake\<rparr>"

section \<open>Properties of the watchdog\<close>

subsection \<open>Auxiliary facts\<close>

lemmas eval_defs =
  monitorSession_def beadClosed_def evaluateHealthSpec_def nonTerminal_def Let_def
  transitionStateSpec_def escalateSession_def advanceLevel_def expectedLevel_def
  MAX_ESCALATION_LEVEL_def executeEscalationAction_def firstStallMailCheck_def emptyWorld_def
  recordEvent_def called_def watchdogEvent_def readCurrentRunId_def trim_def isSpace_def
  killIfAlive_def

lemma called_simps [simp]:
  "calls (called w es) = calls w @ es"
  "eventLog (called w es) = eventLog w"
  "marker (called w es) = marker w"
  "store (called w es) = store w"
  by (simp_all add: called_def)

lemma recordEvent_simps [simp]:
  "calls (recordEvent env w ev) = calls w @ [RecordEvent ev]"
  "eventLog (recordEvent env w ev) = (if eventStoreOpen env then eventLog w @ [ev] else eventLog w)"
  "marker (recordEvent env w ev) = marker w"
  "store (recordEvent env w ev) = store w"
  by (simp_all add: recordEvent_def Let_def)

lemma advanceLevel_first:
  "stalledSince s = None \<Longrightarrow>
     advanceLevel env s = s\<lparr>stalledSince := Some (now env), escalationLevel := 0\<rparr>"
  by (simp add: advanceLevel_def expectedLevel_def MAX_ESCALATION_LEVEL_def)

lemma advanceLevel_later:
  "stalledSince s = Some t \<Longrightarrow> nudgeIntervalMs env \<noteq> 0 \<Longrightarrow>
     escalationLevel (advanceLevel env s) = ladderLevel env s t"
  by (auto simp add: advanceLevel_def expectedLevel_def MAX_ESCALATION_LEVEL_def ladderLevel_def
      Let_def)

lemma advanceLevel_same [simp]:
  "agentName (advanceLevel env s) = agentName s"
  "state (advanceLevel env s) = state s"
  "lastActivity (advanceLevel env s) = lastActivity s"
  "tmuxSession (advanceLevel env s) = tmuxSession s"
  by (simp_all add: advanceLevel_def Let_def split: option.splits)

lemma advanceLevel_since:
  "stalledSince (advanceLevel env s) =
     Some (case stalledSince s of None \<Rightarrow> now env | Some t \<Rightarrow> t)"
  by (simp add: advanceLevel_def Let_def split: option.splits)

lemma execute_outcome:
  "fst (executeEscalationAction env s alive w) =
     (if escalationLevel s = 2 \<and> tier1Enabled env \<and> triage env (agentName s) (lastActivity s) = None
      then None
      else Some \<lparr>terminated = ladderTerminates env s (escalationLevel s),
                 stateChanged = ladderTerminates env s (escalationLevel s)\<rparr>)"
  by (simp add: executeEscalationAction_def ladderTerminates_def Let_def split: option.splits Verdict.splits)

lemma escalateSession_session:
  "fst (snd (escalateSession env s alive w)) =
     (if ladderTerminates env (advanceLevel env s) (escalationLevel (advanceLevel env s))
      then (advanceLevel env s)\<lparr>state := Zombie, escalationLevel := 0, stalledSince := None\<rparr>
      else advanceLevel env s)"
proof -
  define w1 where "w1 = (if stalledSince s = None then firstStallMailCheck env s w else w)"
  define s2 where "s2 = advanceLevel env s"
  obtain r w2 where e: "executeEscalationAction env s2 alive w1 = (r, w2)"
    by (cases "executeEscalationAction env s2 alive w1")
  have r: "r = fst (executeEscalationAction env s2 alive w1)"
    using e by simp
  have unfold: "escalateSession env s alive w =
      (case (r, w2) of
         (None, w2) \<Rightarrow> (True, s2, w2)
       | (Some actionResult, w2) \<Rightarrow>
           (if terminated actionResult
            then (False, s2\<lparr>state := Zombie, escalationLevel := 0, stalledSince := None\<rparr>, w2)
            else (False, s2, w2)))"
    unfolding escalateSession_def Let_def w1_def [symmetric] s2_def [symmetric] e ..
  show ?thesis
    unfolding unfold s2_def [symmetric]
    by (simp add: r execute_outcome ladderTerminates_def)
qed

lemma escalateSession_threw:
  "fst (escalateSession env s alive w) =
     (escalationLevel (advanceLevel env s) = 2 \<and> tier1Enabled env
      \<and> triage env (agentName s) (lastActivity s) = None)"
proof -
  define w1 where "w1 = (if stalledSince s = None then firstStallMailCheck env s w else w)"
  define s2 where "s2 = advanceLevel env s"
  obtain r w2 where e: "executeEscalationAction env s2 alive w1 = (r, w2)"
    by (cases "executeEscalationAction env s2 alive w1")
  have r: "r = fst (executeEscalationAction env s2 alive w1)"
    using e by simp
  have unfold: "escalateSession env s alive w =
      (case (r, w2) of
         (None, w2) \<Rightarrow> (True, s2, w2)
       | (Some actionResult, w2) \<Rightarrow>
           (if terminated actionResult
            then (False, s2\<lparr>state := Zombie, escalationLevel := 0, stalledSince := None\<rparr>, w2)
            else (False, s2, w2)))"
    unfolding escalateSession_def Let_def w1_def [symmetric] s2_def [symmetric] e ..
  show ?thesis
    unfolding unfold
    by (simp add: r execute_outcome s2_def)
qed


lemma firstStallMailCheck_frame [simp]:
  "marker (firstStallMailCheck env s w) = marker w"
  "store (firstStallMailCheck env s w) = store w"
  by (simp_all add: firstStallMailCheck_def split: option.splits)

lemma monitorSession_escalate:
  assumes "state s \<noteq> Completed" and "\<not> beadClosed closedBeadIds s"
    and "isSessionAlive env (tmuxSession s) = Some alive"
    and "hcAction (evaluateHealth env s alive) = Escalate"
  shows "monitorSession env closedBeadIds s w =
           escalateSession env
             (s\<lparr>state := transitionState env (state s) (evaluateHealth env s alive)\<rparr>) alive
             (called w ([IsSessionAlive (tmuxSession s), EvaluateHealth (agentName s) alive]
                        @ (if hasOnHealthCheck env then [OnHealthCheck (evaluateHealth env s alive)] else [])))"
  using assms by (simp add: monitorSession_def Let_def)

lemma envAt_simps [simp]:
  "now (envAt t) = t" "nudgeIntervalMs (envAt t) = 60000" "tier1Enabled (envAt t) = False"
  "hasOnHealthCheck (envAt t) = True" "eventStoreOpen (envAt t) = True"
  "mailStoreOpen (envAt t) = True" "isSessionAlive (envAt t) x = Some True"
  "evaluateHealth (envAt t) = evaluateHealthSpec t \<lparr>staleMs = 300000, zombieMs = 1200000\<rparr>"
  "transitionState (envAt t) = transitionStateSpec"
  "getUnread (envAt t) x = Some 0" "nudge (envAt t) x m = Some True"
  "triage (envAt t) x la = Some Extend" "beadsDirExists (envAt t) = True"
  "bdList (envAt t) ids = Some [(''xyz-1'', ''closed'')]"
  "currentRunFile (envAt t) = Some ''run-1''"
  "markerReadable (envAt t) = True" "markerWritable (envAt t) = True"
  by (simp_all add: envAt_def)

lemma three_intervals:
  assumes "0 < (n::int)" and "3 * n \<le> x"
  shows "3 \<le> x div n"
proof -
  have "(3 * n) div n \<le> x div n"
    using assms by (intro zdiv_mono1) simp_all
  then show ?thesis using assms by simp
qed








lemma checkRunCompletion_store [simp]: "store (checkRunCompletion env r w) = store w"
  by (simp add: checkRunCompletion_def Let_def)


subsection \<open>Closed tickets\<close>



subsection \<open>The ladder advances by elapsed time\<close>

text \<open>
  Claim C2. Take a session that the tick evaluates with health action escalate. If it
  carries no stall stamp (first detection), it leaves the tick with the stamp set to
  the current time and level 0. If it carries the stamp \<open>t\<close>, the level written by the
  tick is \<open>min ((now - t) div nudgeIntervalMs) 3\<close> when that exceeds the stored level
  and the stored level otherwise; unless the action of that level terminates the
  session in the same tick (which resets it), the session leaves the tick with that
  level and the same stamp, so the level has not decreased.
\<close>

theorem escalation_level_advances:
  assumes "state s \<noteq> Completed" and "\<not> beadClosed closedBeadIds s"
    and "isSessionAlive env (tmuxSession s) = Some alive"
    and "hcAction (evaluateHealth env s alive) = Escalate"
    and "s' = fst (snd (monitorSession env closedBeadIds s w))"
  shows "(stalledSince s = None \<longrightarrow>
            stalledSince s' = Some (now env) \<and> escalationLevel s' = 0)
       \<and> (\<forall>t. stalledSince s = Some t \<and> nudgeIntervalMs env \<noteq> 0 \<longrightarrow>
            escalationLevel (advanceLevel env s) =
              (if min ((now env - t) div nudgeIntervalMs env) 3 > escalationLevel s
               then min ((now env - t) div nudgeIntervalMs env) 3 else escalationLevel s)
          \<and> (if ladderTerminates env s (ladderLevel env s t)
              then state s' = Zombie \<and> escalationLevel s' = 0 \<and> stalledSince s' = None
              else stalledSince s' = Some t
                 \<and> escalationLevel s' = escalationLevel (advanceLevel env s)
                 \<and> escalationLevel s \<le> escalationLevel s'))"
proof (intro conjI impI allI)
  let ?s1 = "s\<lparr>state := transitionState env (state s) (evaluateHealth env s alive)\<rparr>"
  have s': "s' = fst (snd (escalateSession env ?s1 alive
             (called w ([IsSessionAlive (tmuxSession s), EvaluateHealth (agentName s) alive]
                        @ (if hasOnHealthCheck env then [OnHealthCheck (evaluateHealth env s alive)] else [])))))"
    using assms by (simp add: monitorSession_escalate)
  {
    assume first: "stalledSince s = None"
    then have a: "advanceLevel env ?s1 = ?s1\<lparr>stalledSince := Some (now env), escalationLevel := 0\<rparr>"
      by (simp add: advanceLevel_first)
    show "stalledSince s' = Some (now env)"
      unfolding s' escalateSession_session a by (simp add: ladderTerminates_def)
    show "escalationLevel s' = 0"
      unfolding s' escalateSession_session a by (simp add: ladderTerminates_def)
  }
  fix t
  assume later: "stalledSince s = Some t \<and> nudgeIntervalMs env \<noteq> 0"
  then have lvl: "escalationLevel (advanceLevel env s) = ladderLevel env s t"
    by (simp add: advanceLevel_later)
  have lvl1: "escalationLevel (advanceLevel env ?s1) = ladderLevel env s t"
    using later advanceLevel_later [of ?s1 t env] by (simp add: ladderLevel_def)
  have since1: "stalledSince (advanceLevel env ?s1) = Some t"
    using later by (simp add: advanceLevel_since)
  show "escalationLevel (advanceLevel env s) =
          (if min ((now env - t) div nudgeIntervalMs env) 3 > escalationLevel s
           then min ((now env - t) div nudgeIntervalMs env) 3 else escalationLevel s)"
    unfolding lvl ladderLevel_def by auto
  have tm: "ladderTerminates env (advanceLevel env ?s1) (ladderLevel env s t)
              = ladderTerminates env s (ladderLevel env s t)"
    by (simp add: ladderTerminates_def)
  show "if ladderTerminates env s (ladderLevel env s t)
        then state s' = Zombie \<and> escalationLevel s' = 0 \<and> stalledSince s' = None
        else stalledSince s' = Some t
           \<and> escalationLevel s' = escalationLevel (advanceLevel env s)
           \<and> escalationLevel s \<le> escalationLevel s'"
    unfolding s' escalateSession_session lvl1 tm lvl
    by (simp add: lvl1 since1 ladderLevel_def)
qed

theorem escalation_level_advances_witness:
  "state stalledBuilder1 \<noteq> Completed \<and> \<not> beadClosed [] stalledBuilder1
   \<and> isSessionAlive (envAt 1061000) (tmuxSession stalledBuilder1) = Some True
   \<and> hcAction (evaluateHealth (envAt 1061000) stalledBuilder1 True) = Escalate
   \<and> stalledSince stalledBuilder1 = Some 1000000 \<and> nudgeIntervalMs (envAt 1061000) \<noteq> 0
   \<and> \<not> ladderTerminates (envAt 1061000) stalledBuilder1 (ladderLevel (envAt 1061000) stalledBuilder1 1000000)
   \<and> escalationLevel (fst (snd (monitorSession (envAt 1061000) [] stalledBuilder1 emptyWorld))) = 1
   \<and> stalledSince (fst (snd (monitorSession (envAt 1061000) [] stalledBuilder1 emptyWorld))) = Some 1000000"
proof -
  have h1: "state stalledBuilder1 \<noteq> Completed" by (simp add: stalledBuilder1_def)
  have h2: "\<not> beadClosed [] stalledBuilder1" by (simp add: beadClosed_def)
  have h3: "isSessionAlive (envAt 1061000) (tmuxSession stalledBuilder1) = Some True" by simp
  have h4: "hcAction (evaluateHealth (envAt 1061000) stalledBuilder1 True) = Escalate"
    by (simp add: stalledBuilder1_def builder1_def evaluateHealthSpec_def nonTerminal_def Let_def)
  have h5: "stalledSince stalledBuilder1 = Some 1000000 \<and> nudgeIntervalMs (envAt 1061000) \<noteq> 0"
    by (simp add: stalledBuilder1_def)
  have lvl: "ladderLevel (envAt 1061000) stalledBuilder1 1000000 = 1"
    by (simp add: ladderLevel_def stalledBuilder1_def builder1_def)
  have h6: "\<not> ladderTerminates (envAt 1061000) stalledBuilder1 (ladderLevel (envAt 1061000) stalledBuilder1 1000000)"
    by (simp add: lvl ladderTerminates_def)
  have adv: "escalationLevel (advanceLevel (envAt 1061000) stalledBuilder1) = 1"
    by (simp add: advanceLevel_def expectedLevel_def MAX_ESCALATION_LEVEL_def stalledBuilder1_def builder1_def)
  from escalation_level_advances [OF h1 h2 h3 h4 refl, of emptyWorld] h5 h6
  have "stalledSince (fst (snd (monitorSession (envAt 1061000) [] stalledBuilder1 emptyWorld))) = Some 1000000
      \<and> escalationLevel (fst (snd (monitorSession (envAt 1061000) [] stalledBuilder1 emptyWorld))) = 1"
    by (simp add: adv)
  with h1 h2 h3 h4 h5 h6 show ?thesis by simp
qed

subsection \<open>Skipped levels\<close>

lemma terminate_after_three_intervals:
  assumes "stalledSince s = Some t" and "0 < nudgeIntervalMs env"
    and "3 * nudgeIntervalMs env \<le> now env - t"
  shows "escalateSession env s alive w =
           (False,
            s\<lparr>state := Zombie, escalationLevel := 0, stalledSince := None\<rparr>,
            called (recordEvent env w
                      (watchdogEvent env (agentName s) Error (EscalationEvent 3 ''terminate'')))
              (RecordFailure (agentName s) ''Progressive escalation reached terminal level'' 0 None
               # killIfAlive alive s))"
proof -
  have three: "3 \<le> (now env - t) div nudgeIntervalMs env"
    using assms by (simp add: three_intervals)
  show ?thesis
  proof (cases "3 < escalationLevel s")
    case True
    then have a: "advanceLevel env s = s"
      using assms three by (simp add: advanceLevel_def expectedLevel_def MAX_ESCALATION_LEVEL_def Let_def)
    show ?thesis
      unfolding escalateSession_def Let_def a using True assms
      by (simp add: executeEscalationAction_def Let_def killIfAlive_def)
  next
    case False
    show ?thesis
    proof (cases "escalationLevel s = 3")
      case True
      then have a: "advanceLevel env s = s"
        using assms three by (simp add: advanceLevel_def expectedLevel_def MAX_ESCALATION_LEVEL_def Let_def)
      show ?thesis
        unfolding escalateSession_def Let_def a using True assms
        by (simp add: executeEscalationAction_def Let_def killIfAlive_def)
    next
      case neq: False
      with False have lt: "escalationLevel s < 3" by simp
      then have a: "advanceLevel env s = s\<lparr>escalationLevel := 3\<rparr>"
        using assms three by (simp add: advanceLevel_def expectedLevel_def MAX_ESCALATION_LEVEL_def Let_def)
      show ?thesis
        unfolding escalateSession_def Let_def a using assms
        by (simp add: executeEscalationAction_def Let_def killIfAlive_def)
    qed
  qed
qed

lemma action_calls_by_level:
  "(escalationLevel s \<noteq> 1 \<longrightarrow>
      Nudge (agentName s) AppearsStalled
        \<notin> set (newCalls w (snd (executeEscalationAction env s alive w))))
   \<and> (escalationLevel s \<noteq> 2 \<longrightarrow>
      Triage (agentName s) \<notin> set (newCalls w (snd (executeEscalationAction env s alive w)))
      \<and> Nudge (agentName s) TriageRecovery
           \<notin> set (newCalls w (snd (executeEscalationAction env s alive w))))"
  by (simp add: newCalls_def executeEscalationAction_def killIfAlive_def Let_def
      split: option.splits)

text \<open>
  Claim C10. A tick that evaluates a session already stalled since \<open>t\<close> runs the action
  of one level only, the level \<open>max stored (min ((now - t) div nudgeIntervalMs) 3)\<close>:
  unless that level is 1 no stall nudge is sent, and unless it is 2 triage is not asked
  and no recovery nudge is sent. In particular, three intervals or more after \<open>t\<close>,
  whatever the stored level, the tick records the terminate event and the failure,
  kills the terminal if it is alive and resets the session as a zombie, even if levels
  1 and 2 were never acted on.
\<close>

theorem ladder_skips_levels:
  assumes "stalledSince s = Some t" and "nudgeIntervalMs env \<noteq> 0"
    and "w' = snd (snd (escalateSession env s alive w))"
    and "lvl = max (escalationLevel s) (min ((now env - t) div nudgeIntervalMs env) 3)"
  shows "(lvl \<noteq> 1 \<longrightarrow> Nudge (agentName s) AppearsStalled \<notin> set (newCalls w w'))
       \<and> (lvl \<noteq> 2 \<longrightarrow> Triage (agentName s) \<notin> set (newCalls w w')
                       \<and> Nudge (agentName s) TriageRecovery \<notin> set (newCalls w w'))
       \<and> (0 < nudgeIntervalMs env \<and> 3 * nudgeIntervalMs env \<le> now env - t \<longrightarrow>
            escalateSession env s alive w =
              (False,
               s\<lparr>state := Zombie, escalationLevel := 0, stalledSince := None\<rparr>,
               called (recordEvent env w
                         (watchdogEvent env (agentName s) Error (EscalationEvent 3 ''terminate'')))
                 (RecordFailure (agentName s)
                    ''Progressive escalation reached terminal level'' 0 None
                  # killIfAlive alive s)))"
proof -
  have lvl: "escalationLevel (advanceLevel env s) = lvl"
    using assms(1,2,4) advanceLevel_later [of s t env] by (simp add: ladderLevel_def)
  have w': "w' = snd (executeEscalationAction env (advanceLevel env s) alive w)"
    unfolding assms(3) escalateSession_def Let_def using assms(1)
    by (simp add: case_prod_beta split: option.splits)
  have general: "(lvl \<noteq> 1 \<longrightarrow> Nudge (agentName s) AppearsStalled \<notin> set (newCalls w w'))
       \<and> (lvl \<noteq> 2 \<longrightarrow> Triage (agentName s) \<notin> set (newCalls w w')
                       \<and> Nudge (agentName s) TriageRecovery \<notin> set (newCalls w w'))"
    using action_calls_by_level [of "advanceLevel env s" w env alive]
    by (simp add: lvl w')
  have three: "0 < nudgeIntervalMs env \<and> 3 * nudgeIntervalMs env \<le> now env - t \<longrightarrow>
            escalateSession env s alive w =
              (False,
               s\<lparr>state := Zombie, escalationLevel := 0, stalledSince := None\<rparr>,
               called (recordEvent env w
                         (watchdogEvent env (agentName s) Error (EscalationEvent 3 ''terminate'')))
                 (RecordFailure (agentName s)
                    ''Progressive escalation reached terminal level'' 0 None
                  # killIfAlive alive s))"
    using terminate_after_three_intervals [OF assms(1)] by blast
  from general three show ?thesis by blast
qed

theorem ladder_skips_levels_witness:
  "stalledSince stalledBuilder1 = Some 1000000 \<and> nudgeIntervalMs (envAt 1181000) \<noteq> 0
   \<and> 0 < nudgeIntervalMs (envAt 1181000)
   \<and> 3 * nudgeIntervalMs (envAt 1181000) \<le> now (envAt 1181000) - 1000000
   \<and> fst (snd (monitorSession (envAt 1000000) [] builder1 emptyWorld)) = stalledBuilder1
   \<and> list_all noNudgeNoTriage
        (calls (snd (snd (monitorSession (envAt 1000000) [] builder1 emptyWorld))))
   \<and> fst (snd (escalateSession (envAt 1181000) stalledBuilder1 True
         (snd (snd (monitorSession (envAt 1000000) [] builder1 emptyWorld)))))
       = builder1\<lparr>state := Zombie\<rparr>
   \<and> list_all noNudgeNoTriage
        (calls (snd (snd (escalateSession (envAt 1181000) stalledBuilder1 True
           (snd (snd (monitorSession (envAt 1000000) [] builder1 emptyWorld)))))))"
proof -
  have h1: "stalledSince stalledBuilder1 = Some 1000000"
    by (simp add: stalledBuilder1_def)
  have h2: "nudgeIntervalMs (envAt 1181000) \<noteq> 0" "0 < nudgeIntervalMs (envAt 1181000)" by simp_all
  have h3: "3 * nudgeIntervalMs (envAt 1181000) \<le> now (envAt 1181000) - 1000000" by simp
  have first: "monitorSession (envAt 1000000) [] builder1 emptyWorld =
     (False, stalledBuilder1,
      emptyWorld\<lparr>calls := [IsSessionAlive ''overstory-builder-1'', EvaluateHealth ''builder-1'' True,
         OnHealthCheck \<lparr>hcState = Stalled, hcAction = Escalate, reconciliationNote = None\<rparr>,
         GetUnread ''builder-1'',
         RecordEvent \<lparr>evRunId = Some ''run-1'', evAgentName = ''builder-1'', evLevel = Warn,
                      evData = EscalationEvent 0 ''warn''\<rparr>],
        eventLog := [\<lparr>evRunId = Some ''run-1'', evAgentName = ''builder-1'', evLevel = Warn,
                      evData = EscalationEvent 0 ''warn''\<rparr>]\<rparr>)"
    by (simp add: builder1_def stalledBuilder1_def eval_defs)
  note t = ladder_skips_levels [where alive = True, OF h1 h2(1) refl refl, THEN conjunct2, THEN conjunct2]
  show ?thesis
    unfolding first
    using h1 h2 h3 t
    by (simp add: noNudgeNoTriage_def stalledBuilder1_def builder1_def killIfAlive_def
        emptyWorld_def watchdogEvent_def)
qed

subsection \<open>Terminal sessions carry no escalation\<close>





subsection \<open>A throwing evaluation\<close>




subsection \<open>Run completion is announced once\<close>















lemma store_update_notifications [simp]:
  "notifications r (w\<lparr>store := xs\<rparr>) = notifications r w"
  by (simp add: notifications_def)

lemma store_update_counts [simp]:
  "alreadyMarked r (w\<lparr>store := xs\<rparr>) = alreadyMarked r w"
  "completionNudges r (w\<lparr>store := xs\<rparr>) = completionNudges r w"
  "runCompleteEmits r (w\<lparr>store := xs\<rparr>) = runCompleteEmits r w"
  "runCompleteLogged r (w\<lparr>store := xs\<rparr>) = runCompleteLogged r w"
  by (simp_all add: alreadyMarked_def completionNudges_def runCompleteEmits_def
      runCompleteLogged_def)





section \<open>Properties of the mail command\<close>

subsection \<open>Auxiliary facts\<close>

lemmas mail_defs =
  handleSend_def handleCheck_def handleReply_def sendOne_def clientSend_def clientCheck_def
  writePendingNudge_def touchAgentSession_def getByName_def updateState_def
  updateLastActivity_def getActive_def flagOr_def senderOf_def orElse_def truthy_def
  shouldNudge_def nudgeReason_def AUTO_NUDGE_TYPES_def VALID_PRIORITIES_def
  MAIL_MESSAGE_TYPES_def resolveAgentName_def isMailCheckDebounced_def recordMailCheck_def
  readAndClearPendingNudge_def hasFlag_def trim_def isSpace_def Let_def
  mailEnv_def mailWorld_def agentRow_def oldMarker_def

lemmas wait_defs =
  handleWait_def waitForMail_def waitIteration_def arrive_def numberFlag_def backoffFlag_def
  wakeFor_def resolveAgentCapability_def quietPoll_def waitOptions_def unreadFor_def

lemma touch_frame [simp]:
  "pendingNudges (touchAgentSession env w a) = pendingNudges w"
  "mail (touchAgentSession env w a) = mail w"
  "mailCheckState (touchAgentSession env w a) = mailCheckState w"
  by (simp_all add: touchAgentSession_def Let_def split: option.splits)

lemma sendOne_nudges:
  "sendOne env sender subject body type priority payload recipient w = (i, w') \<Longrightarrow>
     pendingNudges w' =
       (if shouldNudge priority type
        then (pendingNudges w)(recipient \<mapsto>
               \<lparr>pnFrom = sender, pnReason = nudgeReason priority type, pnSubject = subject,
                pnMessageId = i, pnCreatedAt = clock env\<rparr>)
        else pendingNudges w)
   \<and> sessions w' = sessions w"
  by (auto simp add: sendOne_def clientSend_def writePendingNudge_def Let_def split: if_splits)

lemma sendAll_nudges:
  "sendAll env sender subject body type priority payload rs w = (ids, w') \<Longrightarrow>
     sessions w' = sessions w
   \<and> (\<forall>a. if shouldNudge priority type \<and> a \<in> set rs
           then (\<exists>n. pendingNudges w' a = Some n \<and> pnFrom n = sender
                    \<and> pnReason n = nudgeReason priority type \<and> pnSubject n = subject
                    \<and> pnMessageId n \<in> set ids \<and> pnCreatedAt n = clock env)
           else pendingNudges w' a = pendingNudges w a)"
proof (induction rs arbitrary: w ids w')
  case Nil
  then show ?case by simp
next
  case (Cons r rs)
  obtain i w1 where one: "sendOne env sender subject body type priority payload r w = (i, w1)"
    by (cases "sendOne env sender subject body type priority payload r w")
  obtain ids1 w2 where rest: "sendAll env sender subject body type priority payload rs w1 = (ids1, w2)"
    by (cases "sendAll env sender subject body type priority payload rs w1")
  from Cons.prems one rest have eq: "ids = i # ids1" "w' = w2" by simp_all
  note h1 = sendOne_nudges [OF one]
  note h2 = Cons.IH [OF rest]
  show ?case
    unfolding eq
  proof (intro conjI allI)
    show "sessions w2 = sessions w" using h1 h2 by simp
  next
    fix a
    from h2 have ha: "if shouldNudge priority type \<and> a \<in> set rs
           then (\<exists>n. pendingNudges w2 a = Some n \<and> pnFrom n = sender
                    \<and> pnReason n = nudgeReason priority type \<and> pnSubject n = subject
                    \<and> pnMessageId n \<in> set ids1 \<and> pnCreatedAt n = clock env)
           else pendingNudges w2 a = pendingNudges w1 a"
      by blast
    show "if shouldNudge priority type \<and> a \<in> set (r # rs)
           then (\<exists>n. pendingNudges w2 a = Some n \<and> pnFrom n = sender
                    \<and> pnReason n = nudgeReason priority type \<and> pnSubject n = subject
                    \<and> pnMessageId n \<in> set (i # ids1) \<and> pnCreatedAt n = clock env)
           else pendingNudges w2 a = pendingNudges w a"
      using ha h1 by (auto split: if_splits)
  qed
qed

lemma arrive_frame [simp]:
  "mail (arrive a p w) = mail w @ arrivedMail p"
  "sessions (arrive a p w) = sessions w"
  "pendingNudges (arrive a p w) =
     (case arrivedNudge p of None \<Rightarrow> pendingNudges w | Some n \<Rightarrow> (pendingNudges w)(a \<mapsto> n))"
  by (simp_all add: arrive_def)

subsection \<open>Auto-nudge\<close>

text \<open>
  Claim C7. Take a send that succeeds. The message calls for a nudge exactly when its
  priority is high or urgent or its type is one of worker_done, merge_ready, error,
  escalation, merge_failed. If it does, every recipient ends with a marker written by
  this send (sender, reason, subject, the id of a message of this send, the time of the
  send), whatever marker it had before; every other agent's marker, and every marker
  when the message calls for no nudge, is as it was.
\<close>

theorem auto_nudge_marker:
  assumes "handleSend env args w = (Inr ids, w')"
  shows "shouldNudge (flagOr args ''--priority'' ''normal'') (flagOr args ''--type'' ''status'')
           = (flagOr args ''--priority'' ''normal'' = ''high''
              \<or> flagOr args ''--priority'' ''normal'' = ''urgent''
              \<or> flagOr args ''--type'' ''status'' \<in>
                  {''worker_done'', ''merge_ready'', ''error'', ''escalation'', ''merge_failed''})
       \<and> (\<forall>a. if shouldNudge (flagOr args ''--priority'' ''normal'')
                    (flagOr args ''--type'' ''status'')
                 \<and> a \<in> set (recipientsOf env args w)
               then (\<exists>n. pendingNudges w' a = Some n \<and> markerFor env args ids n)
               else pendingNudges w' a = pendingNudges w a)"
proof
  show "shouldNudge (flagOr args ''--priority'' ''normal'') (flagOr args ''--type'' ''status'')
           = (flagOr args ''--priority'' ''normal'' = ''high''
              \<or> flagOr args ''--priority'' ''normal'' = ''urgent''
              \<or> flagOr args ''--type'' ''status'' \<in>
                  {''worker_done'', ''merge_ready'', ''error'', ''escalation'', ''merge_failed''})"
    by (auto simp add: shouldNudge_def AUTO_NUDGE_TYPES_def)
next
  let ?w1 = "touchAgentSession env w (senderOf args)"
  let ?to = "flagOr args ''--to'' []"
  let ?subj = "flagOr args ''--subject'' []"
  let ?p = "flagOr args ''--priority'' ''normal''"
  let ?t = "flagOr args ''--type'' ''status''"
  from assms have ok: "truthy (getFlag args ''--to'')" "truthy (getFlag args ''--subject'')"
    by (auto simp add: handleSend_def Let_def split: if_splits prod.splits)
  then have to: "(case getFlag args ''--to'' of Some t \<Rightarrow> t | None \<Rightarrow> []) = ?to"
    and subj: "(case getFlag args ''--subject'' of Some t \<Rightarrow> t | None \<Rightarrow> []) = ?subj"
    by (simp_all add: flagOr_def)
  show "\<forall>a. if shouldNudge ?p ?t \<and> a \<in> set (recipientsOf env args w)
               then (\<exists>n. pendingNudges w' a = Some n \<and> markerFor env args ids n)
               else pendingNudges w' a = pendingNudges w a"
  proof (cases "isGroupAddress env ?to")
    case True
    with assms to subj obtain body where
      "sendAll env (senderOf args) ?subj body ?t ?p (getFlag args ''--payload'')
         (recipientsOf env args w) ?w1 = (ids, w')"
      by (auto simp add: handleSend_def Let_def recipientsOf_def split: if_splits prod.splits)
    from sendAll_nudges [OF this] show ?thesis
      by (simp add: markerFor_def)
  next
    case False
    with assms to subj obtain body i where
      one: "sendOne env (senderOf args) ?subj body ?t ?p (getFlag args ''--payload'') ?to ?w1 = (i, w')"
      and ids: "ids = [i]"
      by (auto simp add: handleSend_def Let_def split: if_splits prod.splits)
    from sendOne_nudges [OF one] False show ?thesis
      by (simp add: markerFor_def recipientsOf_def ids)
  qed
qed

theorem auto_nudge_marker_witness:
  "handleSend mailEnv doneArgs mailWorld =
     (Inr [''msg-''],
      mailWorld\<lparr>sessions := [agentRow ''lead-1'' ''lead'' Working,
                               (agentRow ''builder-9'' ''builder'' Working)\<lparr>lastActivity := 5000\<rparr>,
                               agentRow ''zombie-7'' ''builder'' Zombie],
                 mail := [\<lparr>mId = ''msg-'', mFrom = ''builder-9'', mTo = ''lead-1'',
                           mSubject = ''done'', mBody = ''finished'', mType = ''worker_done'',
                           mPriority = ''normal'', mPayload = None, mRead = False,
                           mCreatedAt = 5000\<rparr>],
                 pendingNudges := (pendingNudges mailWorld)
                   (''lead-1'' \<mapsto> \<lparr>pnFrom = ''builder-9'', pnReason = ''worker_done'',
                                   pnSubject = ''done'', pnMessageId = ''msg-'',
                                   pnCreatedAt = 5000\<rparr>)\<rparr>)
   \<and> shouldNudge (flagOr doneArgs ''--priority'' ''normal'') (flagOr doneArgs ''--type'' ''status'')
   \<and> pendingNudges mailWorld ''lead-1'' = Some oldMarker
   \<and> pendingNudges (snd (handleSend mailEnv doneArgs mailWorld)) ''zombie-7'' = None"
proof -
  have run: "handleSend mailEnv doneArgs mailWorld =
     (Inr [''msg-''],
      mailWorld\<lparr>sessions := [agentRow ''lead-1'' ''lead'' Working,
                               (agentRow ''builder-9'' ''builder'' Working)\<lparr>lastActivity := 5000\<rparr>,
                               agentRow ''zombie-7'' ''builder'' Zombie],
                 mail := [\<lparr>mId = ''msg-'', mFrom = ''builder-9'', mTo = ''lead-1'',
                           mSubject = ''done'', mBody = ''finished'', mType = ''worker_done'',
                           mPriority = ''normal'', mPayload = None, mRead = False,
                           mCreatedAt = 5000\<rparr>],
                 pendingNudges := (pendingNudges mailWorld)
                   (''lead-1'' \<mapsto> \<lparr>pnFrom = ''builder-9'', pnReason = ''worker_done'',
                                   pnSubject = ''done'', pnMessageId = ''msg-'',
                                   pnCreatedAt = 5000\<rparr>)\<rparr>)"
    by (simp add: doneArgs_def mail_defs)
  have sn: "shouldNudge (flagOr doneArgs ''--priority'' ''normal'') (flagOr doneArgs ''--type'' ''status'')"
    by (simp add: doneArgs_def mail_defs)
  have notrec: "''zombie-7'' \<notin> set (recipientsOf mailEnv doneArgs mailWorld)"
    by (simp add: recipientsOf_def doneArgs_def mail_defs)
  have "pendingNudges (snd (handleSend mailEnv doneArgs mailWorld)) ''zombie-7''
          = pendingNudges mailWorld ''zombie-7''"
    using auto_nudge_marker [OF run, THEN conjunct2, THEN spec, of "''zombie-7''"] notrec
    by (simp add: run)
  then show ?thesis
    using run sn by (simp add: mailWorld_def)
qed

subsection \<open>Mail activity as heartbeat\<close>

lemma getByName_updateLastActivity:
  "getByName (updateLastActivity rows n t) m =
     map_option (\<lambda>s. if agentName s = n then s\<lparr>lastActivity := t\<rparr> else s) (getByName rows m)"
  by (induction rows) (auto simp add: getByName_def updateLastActivity_def)

lemma getByName_updateState:
  "getByName (updateState rows n st) m =
     map_option (\<lambda>s. if agentName s = n then s\<lparr>state := st\<rparr> else s) (getByName rows m)"
  by (induction rows) (auto simp add: getByName_def updateState_def)

lemma getByName_name: "getByName rows a = Some s \<Longrightarrow> agentName s = a"
  by (auto simp add: getByName_def find_Some_iff)

lemma touch_active:
  assumes "sessionStoreOk env" and "getByName (sessions w) a = Some s"
    and "state s \<noteq> Zombie" and "state s \<noteq> Completed"
  shows "getByName (sessions (touchAgentSession env w a)) a = Some (heartbeat env s)"
  using assms getByName_name [OF assms(2)]
  by (simp add: touchAgentSession_def Let_def getByName_updateLastActivity
      getByName_updateState heartbeat_def)

lemma touch_idle:
  "\<not> sessionStoreOk env \<or> getByName (sessions w) a = None
     \<or> (\<exists>s. getByName (sessions w) a = Some s \<and> (state s = Zombie \<or> state s = Completed)) \<Longrightarrow>
   touchAgentSession env w a = w"
  by (auto simp add: touchAgentSession_def Let_def split: option.splits)

lemma sendAll_sessions:
  "sessions (snd (sendAll env sender subject body type priority payload rs w)) = sessions w"
  using sendAll_nudges [of env sender subject body type priority payload rs w]
  by (cases "sendAll env sender subject body type priority payload rs w") simp

lemma sendOne_sessions:
  "sessions (snd (sendOne env sender subject body type priority payload r w)) = sessions w"
  using sendOne_nudges [of env sender subject body type priority payload r w]
  by (cases "sendOne env sender subject body type priority payload r w") simp

lemma handleSend_sessions:
  assumes "flagOr args ''--type'' ''status'' \<in> set MAIL_MESSAGE_TYPES"
    and "flagOr args ''--priority'' ''normal'' \<in> set VALID_PRIORITIES"
  shows "sessions (snd (handleSend env args w)) = sessions (touchAgentSession env w (senderOf args))"
  using assms
  by (simp add: handleSend_def Let_def case_prod_beta sendAll_sessions sendOne_sessions)

lemma handleReply_sessions:
  "sessions (snd (handleReply env args w)) = sessions (touchAgentSession env w (senderOf args))"
  by (simp add: handleReply_def Let_def split: option.splits)

lemma readAndClear_sessions [simp]:
  "sessions (snd (readAndClearPendingNudge w a)) = sessions w"
  by (simp add: readAndClearPendingNudge_def split: option.splits)

lemma handleCheck_sessions:
  "sessions (snd (handleCheck env args w)) =
     (if checkSkipped env args w then sessions w
      else sessions (touchAgentSession env w (resolveAgentName env args)))"
  by (simp add: handleCheck_def checkSkipped_def Let_def case_prod_beta recordMailCheck_def
      split: option.splits)

text \<open>
  Claim C8, as the code has it. The heartbeat of an agent whose session is booting,
  working or stalled stamps its last activity with the current time and moves booting
  and stalled to working. An agent with no session, a zombie or completed session, and
  any agent when the session store cannot be opened, is left untouched. A send with a
  valid type and priority, a reply, and a check that is neither rejected nor debounced
  leave the sessions as the heartbeat of the acting agent leaves them; a rejected or
  debounced check leaves them as they were.
\<close>

theorem mail_activity_heartbeat:
  "(sessionStoreOk env \<longrightarrow> getByName (sessions w) a = Some s \<longrightarrow>
      state s \<noteq> Zombie \<longrightarrow> state s \<noteq> Completed \<longrightarrow>
      getByName (sessions (touchAgentSession env w a)) a
        = Some (s\<lparr>lastActivity := clock env,
                  state := (if state s = Booting \<or> state s = Stalled then Working
                            else state s)\<rparr>))
   \<and> (\<not> sessionStoreOk env \<or> getByName (sessions w) a = None
        \<or> (\<exists>s. getByName (sessions w) a = Some s \<and> (state s = Zombie \<or> state s = Completed)) \<longrightarrow>
      touchAgentSession env w a = w)
   \<and> (flagOr args ''--type'' ''status'' \<in> set MAIL_MESSAGE_TYPES \<longrightarrow>
      flagOr args ''--priority'' ''normal'' \<in> set VALID_PRIORITIES \<longrightarrow>
      sessions (snd (handleSend env args w)) = sessions (touchAgentSession env w (senderOf args)))
   \<and> sessions (snd (handleCheck env args w)) =
       (if checkSkipped env args w then sessions w
        else sessions (touchAgentSession env w (resolveAgentName env args)))
   \<and> sessions (snd (handleReply env args w)) = sessions (touchAgentSession env w (senderOf args))"
  using touch_active [of env w a s] touch_idle [of env w a]
    handleSend_sessions [of args env w] handleCheck_sessions [of env args w]
    handleReply_sessions [of env args w]
  by (simp add: heartbeat_def)

theorem mail_activity_heartbeat_witness:
  "sessionStoreOk mailEnv
   \<and> getByName (sessions mailWorld) ''builder-9'' = Some (agentRow ''builder-9'' ''builder'' Stalled)
   \<and> getByName (sessions (touchAgentSession mailEnv mailWorld ''builder-9'')) ''builder-9''
       = Some ((agentRow ''builder-9'' ''builder'' Working)\<lparr>lastActivity := 5000\<rparr>)
   \<and> flagOr doneArgs ''--type'' ''status'' \<in> set MAIL_MESSAGE_TYPES
   \<and> flagOr doneArgs ''--priority'' ''normal'' \<in> set VALID_PRIORITIES
   \<and> senderOf doneArgs = ''builder-9''
   \<and> getByName (sessions (snd (handleSend mailEnv doneArgs mailWorld))) ''builder-9''
       = Some ((agentRow ''builder-9'' ''builder'' Working)\<lparr>lastActivity := 5000\<rparr>)"
proof -
  have h1: "sessionStoreOk mailEnv" by (simp add: mailEnv_def)
  have h2: "getByName (sessions mailWorld) ''builder-9'' = Some (agentRow ''builder-9'' ''builder'' Stalled)"
    by (simp add: mail_defs)
  have h3: "state (agentRow ''builder-9'' ''builder'' Stalled) \<noteq> Zombie"
    "state (agentRow ''builder-9'' ''builder'' Stalled) \<noteq> Completed"
    by (simp_all add: agentRow_def)
  have h4: "flagOr doneArgs ''--type'' ''status'' \<in> set MAIL_MESSAGE_TYPES"
    "flagOr doneArgs ''--priority'' ''normal'' \<in> set VALID_PRIORITIES"
    "senderOf doneArgs = ''builder-9''"
    by (simp_all add: doneArgs_def mail_defs)
  note t = mail_activity_heartbeat [of mailEnv mailWorld "''builder-9''"
      "agentRow ''builder-9'' ''builder'' Stalled" doneArgs]
  from t h1 h2 h3 have a: "getByName (sessions (touchAgentSession mailEnv mailWorld ''builder-9'')) ''builder-9''
       = Some ((agentRow ''builder-9'' ''builder'' Working)\<lparr>lastActivity := 5000\<rparr>)"
    by (simp add: agentRow_def mailEnv_def)
  from t h4 have "sessions (snd (handleSend mailEnv doneArgs mailWorld))
                    = sessions (touchAgentSession mailEnv mailWorld ''builder-9'')"
    by simp
  with a h1 h2 h4 show ?thesis by simp
qed

text \<open>
  The claim as stated fails: a zombie sends a message and its last activity stays at
  100 although the clock reads 5000; and the check of a stalled builder, debounced,
  changes nothing.
\<close>

theorem terminal_sender_untouched_counterexample:
  "getByName (sessions mailWorld) ''zombie-7'' = Some (agentRow ''zombie-7'' ''builder'' Zombie)
   \<and> lastActivity (agentRow ''zombie-7'' ''builder'' Zombie) = 100 \<and> clock mailEnv = 5000
   \<and> fst (handleSend mailEnv zombieArgs mailWorld) = Inr [''msg-'']
   \<and> getByName (sessions (snd (handleSend mailEnv zombieArgs mailWorld))) ''zombie-7''
       = Some (agentRow ''zombie-7'' ''builder'' Zombie)
   \<and> getByName (sessions mailWorld) ''builder-9'' = Some (agentRow ''builder-9'' ''builder'' Stalled)
   \<and> handleCheck mailEnv debouncedArgs mailWorld = (Inr (None, []), mailWorld)"
  by (simp add: zombieArgs_def debouncedArgs_def mail_defs)

subsection \<open>The order of one wait iteration\<close>

lemma waitIteration_cases:
  "waitIteration env options startedAt pollMs n p w =
     (let a = agent options;
          elapsed = pollClock p - startedAt;
          nudgeRead = (if wakeOnPendingNudge options then pendingNudges w a else None);
          inbox = filter (unreadFor a) (mail w);
          polled = touchAgentSession (env\<lparr>clock := pollClock p\<rparr>)
                     (w\<lparr>pendingNudges := (if wakeOnPendingNudge options
                                            then (pendingNudges w)(a := None)
                                            else pendingNudges w),
                        mail := map (\<lambda>m. if unreadFor a m then m\<lparr>mRead := True\<rparr> else m)
                                  (mail w)\<rparr>) a
      in if truthy (cancelFile options) \<and> cancelFileExists p then
           (Return \<lparr>status = Cancelled, messages = [], waitedMs = elapsed, polls = n,
                    resultCancelFile = cancelFile options, resultNudge = None\<rparr>, w)
         else if inbox \<noteq> [] then
           (Return \<lparr>status = GotMessage, messages = inbox, waitedMs = elapsed, polls = n + 1,
                    resultCancelFile = cancelFile options, resultNudge = nudgeRead\<rparr>, polled)
         else if nudgeRead \<noteq> None then
           (Return \<lparr>status = Nudged, messages = [], waitedMs = elapsed, polls = n + 1,
                    resultCancelFile = cancelFile options, resultNudge = nudgeRead\<rparr>, polled)
         else if elapsed \<ge> timeoutMs options then
           (Return \<lparr>status = Timeout, messages = [], waitedMs = elapsed, polls = n + 1,
                    resultCancelFile = cancelFile options, resultNudge = None\<rparr>, polled)
         else
           (Sleep (mathMin pollMs (Finite (of_int (timeoutMs options - elapsed))))
              (mathMin (Finite (of_int (maxPollMs options)))
                 (mathMax (Finite (of_int (initialPollMs options)))
                    (mathFloor (multiply (nearestDouble env) pollMs (backoff options))))),
            polled))"
proof (cases "pendingNudges w (agent options)")
  case None
  then have "(pendingNudges w)(agent options := None) = pendingNudges w"
    by (simp add: fun_upd_idem)
  with None show ?thesis
    by (simp add: waitIteration_def Let_def readAndClearPendingNudge_def clientCheck_def)
next
  case (Some marker)
  then show ?thesis
    by (simp add: waitIteration_def Let_def readAndClearPendingNudge_def clientCheck_def)
qed

text \<open>
  Claim C6. The wait starts with a heartbeat and a poll interval of \<open>initialPollMs\<close>,
  and with no poll left it has not returned. Every iteration works on the stores as
  the poll finds them: an existing cancel file returns cancelled before anything is
  read; otherwise the pending nudge is read and cleared (when the agent wakes on
  nudges), the inbox is read and marked, and the session is touched; then a non-empty
  inbox returns those messages with the nudge read, else a nudge returns nudged, else
  an elapsed time of at least the timeout returns timeout, else the loop sleeps
  \<^verbatim>\<open>Math.min(pollMs, remainingMs)\<close> and runs the next iteration with the poll interval
  \<^verbatim>\<open>Math.min(maxPollMs, Math.max(initialPollMs, Math.floor(pollMs * backoff)))\<close>, the
  product being that of the runtime. When the interval and the backoff are finite and
  the rounded product is the finite \<open>x\<close>, that is
  \<open>min maxPollMs (max initialPollMs \<lfloor>x\<rfloor>)\<close>.
\<close>

theorem wait_iteration_order:
  "waitForMail env options script w0 =
     waitLoop env options (clock env) (Finite (of_int (initialPollMs options))) 0 script
       (touchAgentSession env w0 (agent options))
   \<and> waitLoop env options startedAt pollMs n [] w0 = (None, [], w0)
   \<and> waitLoop env options startedAt pollMs n (p # later) w0 =
     (let a = agent options;
          w = arrive a p w0;
          elapsed = pollClock p - startedAt;
          nudgeRead = (if wakeOnPendingNudge options then pendingNudges w a else None);
          inbox = filter (unreadFor a) (mail w);
          polled = touchAgentSession (env\<lparr>clock := pollClock p\<rparr>)
                     (w\<lparr>pendingNudges := (if wakeOnPendingNudge options
                                            then (pendingNudges w)(a := None)
                                            else pendingNudges w),
                        mail := map (\<lambda>m. if unreadFor a m then m\<lparr>mRead := True\<rparr> else m)
                                  (mail w)\<rparr>) a;
          sleepMs = mathMin pollMs (Finite (of_int (timeoutMs options - elapsed)));
          nextPollMs = mathMin (Finite (of_int (maxPollMs options)))
                         (mathMax (Finite (of_int (initialPollMs options)))
                            (mathFloor (multiply (nearestDouble env) pollMs (backoff options))))
      in if truthy (cancelFile options) \<and> cancelFileExists p then
           (Some \<lparr>status = Cancelled, messages = [], waitedMs = elapsed, polls = n,
                  resultCancelFile = cancelFile options, resultNudge = None\<rparr>, [], w)
         else if inbox \<noteq> [] then
           (Some \<lparr>status = GotMessage, messages = inbox, waitedMs = elapsed, polls = n + 1,
                  resultCancelFile = cancelFile options, resultNudge = nudgeRead\<rparr>, [], polled)
         else if nudgeRead \<noteq> None then
           (Some \<lparr>status = Nudged, messages = [], waitedMs = elapsed, polls = n + 1,
                  resultCancelFile = cancelFile options, resultNudge = nudgeRead\<rparr>, [], polled)
         else if elapsed \<ge> timeoutMs options then
           (Some \<lparr>status = Timeout, messages = [], waitedMs = elapsed, polls = n + 1,
                  resultCancelFile = cancelFile options, resultNudge = None\<rparr>, [], polled)
         else
           (fst (waitLoop env options startedAt nextPollMs (n + 1) later polled),
            sleepMs # fst (snd (waitLoop env options startedAt nextPollMs (n + 1) later polled)),
            snd (snd (waitLoop env options startedAt nextPollMs (n + 1) later polled))))
   \<and> (nearestDouble env (c * b) = Finite x \<longrightarrow>
        mathMin (Finite (of_int (maxPollMs options)))
          (mathMax (Finite (of_int (initialPollMs options)))
             (mathFloor (multiply (nearestDouble env) (Finite c) (Finite b))))
          = Finite (of_int (min (maxPollMs options) (max (initialPollMs options) \<lfloor>x\<rfloor>))))"
proof (intro conjI)
  show "waitForMail env options script w0 =
     waitLoop env options (clock env) (Finite (of_int (initialPollMs options))) 0 script
       (touchAgentSession env w0 (agent options))"
    by (simp add: waitForMail_def)
  show "waitLoop env options startedAt pollMs n [] w0 = (None, [], w0)"
    by simp
  show "nearestDouble env (c * b) = Finite x \<longrightarrow>
        mathMin (Finite (of_int (maxPollMs options)))
          (mathMax (Finite (of_int (initialPollMs options)))
             (mathFloor (multiply (nearestDouble env) (Finite c) (Finite b))))
          = Finite (of_int (min (maxPollMs options) (max (initialPollMs options) \<lfloor>x\<rfloor>)))"
    by (simp add: of_int_max of_int_min)
  show "waitLoop env options startedAt pollMs n (p # later) w0 =
     (let a = agent options;
          w = arrive a p w0;
          elapsed = pollClock p - startedAt;
          nudgeRead = (if wakeOnPendingNudge options then pendingNudges w a else None);
          inbox = filter (unreadFor a) (mail w);
          polled = touchAgentSession (env\<lparr>clock := pollClock p\<rparr>)
                     (w\<lparr>pendingNudges := (if wakeOnPendingNudge options
                                            then (pendingNudges w)(a := None)
                                            else pendingNudges w),
                        mail := map (\<lambda>m. if unreadFor a m then m\<lparr>mRead := True\<rparr> else m)
                                  (mail w)\<rparr>) a;
          sleepMs = mathMin pollMs (Finite (of_int (timeoutMs options - elapsed)));
          nextPollMs = mathMin (Finite (of_int (maxPollMs options)))
                         (mathMax (Finite (of_int (initialPollMs options)))
                            (mathFloor (multiply (nearestDouble env) pollMs (backoff options))))
      in if truthy (cancelFile options) \<and> cancelFileExists p then
           (Some \<lparr>status = Cancelled, messages = [], waitedMs = elapsed, polls = n,
                  resultCancelFile = cancelFile options, resultNudge = None\<rparr>, [], w)
         else if inbox \<noteq> [] then
           (Some \<lparr>status = GotMessage, messages = inbox, waitedMs = elapsed, polls = n + 1,
                  resultCancelFile = cancelFile options, resultNudge = nudgeRead\<rparr>, [], polled)
         else if nudgeRead \<noteq> None then
           (Some \<lparr>status = Nudged, messages = [], waitedMs = elapsed, polls = n + 1,
                  resultCancelFile = cancelFile options, resultNudge = nudgeRead\<rparr>, [], polled)
         else if elapsed \<ge> timeoutMs options then
           (Some \<lparr>status = Timeout, messages = [], waitedMs = elapsed, polls = n + 1,
                  resultCancelFile = cancelFile options, resultNudge = None\<rparr>, [], polled)
         else
           (fst (waitLoop env options startedAt nextPollMs (n + 1) later polled),
            sleepMs # fst (snd (waitLoop env options startedAt nextPollMs (n + 1) later polled)),
            snd (snd (waitLoop env options startedAt nextPollMs (n + 1) later polled))))"
    by (simp add: waitIteration_cases Let_def case_prod_beta del: arrive_frame)
qed

theorem wait_iteration_order_witness:
  "nearestDouble mailEnv (10 * (7656119366529843 / 4503599627370496)) = Finite 17
   \<and> \<lfloor>10 * (7656119366529843 / 4503599627370496 :: real)\<rfloor> = 16
   \<and> mathMin (Finite (of_int (maxPollMs slowBackoff)))
        (mathMax (Finite (of_int (initialPollMs slowBackoff)))
           (mathFloor (multiply (nearestDouble mailEnv) (Finite 10)
                         (Finite (7656119366529843 / 4503599627370496)))))
       = Finite 17
   \<and> fst (snd (waitForMail mailEnv slowBackoff [quietPoll, quietPoll, quietPoll] mailWorld))
       = [Finite 10, Finite 17, Finite 28]
   \<and> fst (snd (waitForMail mailEnv (waitOptions ''builder-9'' False)
                  [quietPoll, quietPoll] mailWorld))
       = [Finite 1000, Finite 1500]
   \<and> fst (waitLoop mailEnv (waitOptions ''builder-9'' False) 5000 (Finite 9000) 0
            [quietPoll] mailWorld) = None
   \<and> fst (snd (waitLoop mailEnv (waitOptions ''builder-9'' False) (- 4000) (Finite 9000) 0
                 [quietPoll] mailWorld)) = [Finite 999]
   \<and> fst (waitLoop mailEnv (waitOptions ''builder-9'' False) (- 5000) (Finite 1000) 3
            [quietPoll, quietPoll] mailWorld)
       = Some \<lparr>status = Timeout, messages = [], waitedMs = 10001, polls = 4,
                resultCancelFile = None, resultNudge = None\<rparr>
   \<and> fst (waitForMail mailEnv (waitOptions ''lead-1'' True) [quietPoll, quietPoll] mailWorld)
       = Some \<lparr>status = Nudged, messages = [], waitedMs = 1, polls = 1,
                resultCancelFile = None, resultNudge = Some oldMarker\<rparr>"
proof -
  have r: "nearestDouble mailEnv (10 * (7656119366529843 / 4503599627370496)) = Finite 17"
    by (simp add: mailEnv_def)
  have f: "\<lfloor>10 * (7656119366529843 / 4503599627370496 :: real)\<rfloor> = 16"
    by (simp add: floor_eq_iff)
  from wait_iteration_order [of mailEnv slowBackoff "[]" mailWorld 0 "Finite 0" 0 quietPoll "[]" 10
      "7656119366529843 / 4503599627370496" 17] r
  have a: "mathMin (Finite (of_int (maxPollMs slowBackoff)))
        (mathMax (Finite (of_int (initialPollMs slowBackoff)))
           (mathFloor (multiply (nearestDouble mailEnv) (Finite 10)
                         (Finite (7656119366529843 / 4503599627370496)))))
       = Finite 17"
    by (simp add: slowBackoff_def)
  have b: "fst (snd (waitForMail mailEnv slowBackoff [quietPoll, quietPoll, quietPoll] mailWorld))
       = [Finite 10, Finite 17, Finite 28]"
    by (simp add: wait_defs mail_defs slowBackoff_def)
  have c: "fst (snd (waitForMail mailEnv (waitOptions ''builder-9'' False)
                  [quietPoll, quietPoll] mailWorld))
       = [Finite 1000, Finite 1500]"
    by (simp add: wait_defs mail_defs)
  have d: "fst (waitLoop mailEnv (waitOptions ''builder-9'' False) 5000 (Finite 9000) 0
            [quietPoll] mailWorld) = None"
    "fst (snd (waitLoop mailEnv (waitOptions ''builder-9'' False) (- 4000) (Finite 9000) 0
                 [quietPoll] mailWorld)) = [Finite 999]"
    by (simp_all add: wait_defs mail_defs)
  have e: "fst (waitLoop mailEnv (waitOptions ''builder-9'' False) (- 5000) (Finite 1000) 3
            [quietPoll, quietPoll] mailWorld)
       = Some \<lparr>status = Timeout, messages = [], waitedMs = 10001, polls = 4,
                resultCancelFile = None, resultNudge = None\<rparr>"
    by (simp add: wait_defs mail_defs)
  have g: "fst (waitForMail mailEnv (waitOptions ''lead-1'' True) [quietPoll, quietPoll] mailWorld)
       = Some \<lparr>status = Nudged, messages = [], waitedMs = 1, polls = 1,
                resultCancelFile = None, resultNudge = Some oldMarker\<rparr>"
    by (simp add: wait_defs mail_defs)
  from r f a b c d e g show ?thesis by simp
qed

subsection \<open>Who wakes on a pending nudge\<close>

lemma waitIteration_no_wake:
  assumes "\<not> wakeOnPendingNudge options"
  shows "pendingNudges (snd (waitIteration env options startedAt pollMs n p w)) = pendingNudges w"
    and "fst (waitIteration env options startedAt pollMs n p w) = Return res \<Longrightarrow>
           status res \<noteq> Nudged \<and> resultNudge res = None"
  using assms by (auto simp add: waitIteration_cases Let_def split: if_splits)

lemma waitLoop_no_wake:
  assumes "\<not> wakeOnPendingNudge options"
  shows "waitLoop env options startedAt pollMs n script w = (r, sleeps, w') \<Longrightarrow>
           (\<forall>res. r = Some res \<longrightarrow> status res \<noteq> Nudged \<and> resultNudge res = None)
         \<and> (list_all (\<lambda>p. arrivedNudge p = None) script \<longrightarrow> pendingNudges w' = pendingNudges w)"
proof (induction script arbitrary: pollMs n w r sleeps w')
  case Nil
  then show ?case by simp
next
  case (Cons p later)
  let ?w0 = "arrive (agent options) p w"
  obtain step w1 where it: "waitIteration env options startedAt pollMs n p ?w0 = (step, w1)"
    by (cases "waitIteration env options startedAt pollMs n p ?w0")
  have keep: "pendingNudges w1 = pendingNudges ?w0"
    using waitIteration_no_wake(1) [OF assms, of env startedAt pollMs n p ?w0] it by simp
  show ?case
  proof (cases step)
    case (Return res)
    with it Cons.prems have r: "r = Some res" "w' = w1" by simp_all
    have "status res \<noteq> Nudged \<and> resultNudge res = None"
      using waitIteration_no_wake(2) [OF assms, of env startedAt pollMs n p ?w0 res] it Return
      by simp
    with r keep show ?thesis by (auto split: option.splits)
  next
    case (Sleep sleepMs pollMs1)
    obtain r2 sl2 w2 where l: "waitLoop env options startedAt pollMs1 (n + 1) later w1 = (r2, sl2, w2)"
      by (cases "waitLoop env options startedAt pollMs1 (n + 1) later w1") auto
    with it Sleep Cons.prems have r: "r = r2" "w' = w2" by simp_all
    from Cons.IH [OF l] r keep show ?thesis by (auto split: option.splits)
  qed
qed

lemma handleWait_runs:
  assumes "handleWait env args script w = (Inr out, w')"
  shows "\<exists>t i m b.
           waitForMail env
             \<lparr>agent = resolveAgentName env args, timeoutMs = t, initialPollMs = i,
              maxPollMs = m, backoff = b, cancelFile = getFlag args ''--cancel-file'',
              wakeOnPendingNudge = wakeFor env w (resolveAgentName env args)\<rparr> script w
           = (fst out, snd out, w')"
  using assms
  by (auto simp add: handleWait_def Let_def split: option.splits if_splits prod.splits) blast

text \<open>
  Claim C9, as the code has it. An agent waits with wake-on-nudge exactly when its
  recorded capability is coordinator or lead, or its name is \<open>coordinator\<close>. Without
  it, a wait never returns nudged, never returns a nudge, and removes no marker. With
  it, a first poll that finds no cancel file, no unread mail and a marker returns
  nudged with that marker and removes it.
\<close>

theorem wake_on_pending_nudge:
  assumes "handleWait env args script w = (Inr (r, sleeps), w')"
    and "name = resolveAgentName env args"
    and "wake = (resolveAgentCapability env w name = Some ''coordinator''
                 \<or> resolveAgentCapability env w name = Some ''lead''
                 \<or> name = ''coordinator'')"
  shows "(\<not> wake \<longrightarrow>
            (\<forall>res. r = Some res \<longrightarrow> status res \<noteq> Nudged \<and> resultNudge res = None)
          \<and> (list_all (\<lambda>p. arrivedNudge p = None) script \<longrightarrow> pendingNudges w' = pendingNudges w))
       \<and> (wake \<longrightarrow>
            (\<forall>p rest n.
               script = p # rest \<longrightarrow>
               \<not> (truthy (getFlag args ''--cancel-file'') \<and> cancelFileExists p) \<longrightarrow>
               filter (unreadFor name) (mail w @ arrivedMail p) = [] \<longrightarrow>
               pendingNudges (arrive name p w) name = Some n \<longrightarrow>
               (\<exists>res. r = Some res \<and> status res = Nudged \<and> resultNudge res = Some n
                      \<and> messages res = [])
               \<and> pendingNudges w' name = None))"
proof -
  from handleWait_runs [OF assms(1)] obtain t i m b where
    run: "waitForMail env
             \<lparr>agent = name, timeoutMs = t, initialPollMs = i,
              maxPollMs = m, backoff = b, cancelFile = getFlag args ''--cancel-file'',
              wakeOnPendingNudge = wakeFor env w name\<rparr> script w
           = (r, sleeps, w')"
    unfolding assms(2) by auto
  let ?o = "\<lparr>agent = name, timeoutMs = t, initialPollMs = i,
              maxPollMs = m, backoff = b, cancelFile = getFlag args ''--cancel-file'',
              wakeOnPendingNudge = wakeFor env w name\<rparr>"
  let ?w0 = "touchAgentSession env w name"
  have wk: "wakeFor env w name = wake"
    by (simp add: wakeFor_def assms(3) Let_def)
  from run have loop: "waitLoop env ?o (clock env) (Finite (of_int i)) 0 script ?w0 = (r, sleeps, w')"
    by (simp add: waitForMail_def)
  show ?thesis
  proof (intro conjI)
    show "\<not> wake \<longrightarrow>
            (\<forall>res. r = Some res \<longrightarrow> status res \<noteq> Nudged \<and> resultNudge res = None)
          \<and> (list_all (\<lambda>p. arrivedNudge p = None) script \<longrightarrow> pendingNudges w' = pendingNudges w)"
    proof
      assume nw: "\<not> wake"
      then have "\<not> wakeOnPendingNudge ?o" by (simp add: wk)
      from waitLoop_no_wake [OF this loop]
      show "(\<forall>res. r = Some res \<longrightarrow> status res \<noteq> Nudged \<and> resultNudge res = None)
          \<and> (list_all (\<lambda>p. arrivedNudge p = None) script \<longrightarrow> pendingNudges w' = pendingNudges w)"
        by simp
    qed
  next
    show "wake \<longrightarrow>
            (\<forall>p rest n.
               script = p # rest \<longrightarrow>
               \<not> (truthy (getFlag args ''--cancel-file'') \<and> cancelFileExists p) \<longrightarrow>
               filter (unreadFor name) (mail w @ arrivedMail p) = [] \<longrightarrow>
               pendingNudges (arrive name p w) name = Some n \<longrightarrow>
               (\<exists>res. r = Some res \<and> status res = Nudged \<and> resultNudge res = Some n
                      \<and> messages res = [])
               \<and> pendingNudges w' name = None)"
    proof (intro impI allI)
      fix p rest n
      assume "wake" and script: "script = p # rest"
        and nc: "\<not> (truthy (getFlag args ''--cancel-file'') \<and> cancelFileExists p)"
        and empty: "filter (unreadFor name) (mail w @ arrivedMail p) = []"
        and mk: "pendingNudges (arrive name p w) name = Some n"
      have mk0: "pendingNudges (arrive name p ?w0) name = Some n"
        using mk by (simp split: option.splits)
      have it: "waitIteration env ?o (clock env) (Finite (of_int i)) 0 p (arrive name p ?w0) =
          (Return \<lparr>status = Nudged, messages = [], waitedMs = pollClock p - clock env, polls = 1,
                   resultCancelFile = getFlag args ''--cancel-file'', resultNudge = Some n\<rparr>,
           touchAgentSession (env\<lparr>clock := pollClock p\<rparr>)
             ((arrive name p ?w0)
                \<lparr>pendingNudges := (pendingNudges (arrive name p ?w0))(name := None),
                 mail := map (\<lambda>m. if unreadFor name m then m\<lparr>mRead := True\<rparr> else m)
                           (mail (arrive name p ?w0))\<rparr>) name)"
        using nc empty mk0 \<open>wake\<close>
        by (simp add: waitIteration_cases Let_def wk del: arrive_frame(3))
      from loop have res: "r = Some \<lparr>status = Nudged, messages = [], waitedMs = pollClock p - clock env, polls = 1,
                   resultCancelFile = getFlag args ''--cancel-file'', resultNudge = Some n\<rparr>"
        and w': "w' = touchAgentSession (env\<lparr>clock := pollClock p\<rparr>)
             ((arrive name p ?w0)
                \<lparr>pendingNudges := (pendingNudges (arrive name p ?w0))(name := None),
                 mail := map (\<lambda>m. if unreadFor name m then m\<lparr>mRead := True\<rparr> else m)
                           (mail (arrive name p ?w0))\<rparr>) name"
        unfolding script by (simp_all add: it)
      show "(\<exists>res. r = Some res \<and> status res = Nudged \<and> resultNudge res = Some n \<and> messages res = [])
            \<and> pendingNudges w' name = None"
        by (simp add: res w')
    qed
  qed
qed

theorem wake_on_pending_nudge_witness:
  "fst (handleWait mailEnv [''--agent'', ''builder-9''] [quietPoll] mailWorld) = Inr (None, [Finite 1000])
   \<and> resolveAgentName mailEnv [''--agent'', ''builder-9''] = ''builder-9''
   \<and> resolveAgentCapability mailEnv mailWorld ''builder-9'' = Some ''builder''
   \<and> list_all (\<lambda>p. arrivedNudge p = None) [quietPoll]
   \<and> pendingNudges (snd (handleWait mailEnv [''--agent'', ''builder-9''] [quietPoll] mailWorld))
       = pendingNudges mailWorld
   \<and> resolveAgentCapability mailEnv mailWorld ''lead-1'' = Some ''lead''
   \<and> fst (handleWait mailEnv [''--agent'', ''lead-1''] [quietPoll] mailWorld)
       = Inr (Some \<lparr>status = Nudged, messages = [], waitedMs = 1, polls = 1,
                     resultCancelFile = None, resultNudge = Some oldMarker\<rparr>, [])
   \<and> pendingNudges (snd (handleWait mailEnv [''--agent'', ''lead-1''] [quietPoll] mailWorld))
        ''lead-1'' = None"
proof -
  have r1: "fst (handleWait mailEnv [''--agent'', ''builder-9''] [quietPoll] mailWorld) = Inr (None, [Finite 1000])"
    by (simp add: wait_defs mail_defs)
  have n1: "resolveAgentName mailEnv [''--agent'', ''builder-9''] = ''builder-9''"
    by (simp add: mail_defs)
  have c1: "resolveAgentCapability mailEnv mailWorld ''builder-9'' = Some ''builder''"
    "resolveAgentCapability mailEnv mailWorld ''lead-1'' = Some ''lead''"
    by (simp_all add: wait_defs mail_defs)
  have q: "list_all (\<lambda>p. arrivedNudge p = None) [quietPoll]"
    by (simp add: quietPoll_def)
  have run: "handleWait mailEnv [''--agent'', ''builder-9''] [quietPoll] mailWorld =
      (Inr (None, [Finite 1000]), snd (handleWait mailEnv [''--agent'', ''builder-9''] [quietPoll] mailWorld))"
    using r1 by (simp add: prod_eq_iff)
  from wake_on_pending_nudge [OF run n1 [symmetric] refl] c1 q
  have keep: "pendingNudges (snd (handleWait mailEnv [''--agent'', ''builder-9''] [quietPoll] mailWorld))
       = pendingNudges mailWorld"
    by simp
  have r2: "fst (handleWait mailEnv [''--agent'', ''lead-1''] [quietPoll] mailWorld)
       = Inr (Some \<lparr>status = Nudged, messages = [], waitedMs = 1, polls = 1,
                     resultCancelFile = None, resultNudge = Some oldMarker\<rparr>, [])"
    by (simp add: wait_defs mail_defs)
  have r3: "pendingNudges (snd (handleWait mailEnv [''--agent'', ''lead-1''] [quietPoll] mailWorld))
        ''lead-1'' = None"
    by (simp add: wait_defs mail_defs)
  from r1 n1 c1 q keep r2 r3 show ?thesis by simp
qed

text \<open>
  The claim as stated fails: the agent named \<open>coordinator\<close> has no recorded capability,
  and its wait wakes on the pending nudge and removes the marker.
\<close>

theorem wake_by_name_counterexample:
  "resolveAgentName mailEnv [''--agent'', ''coordinator''] = ''coordinator''
   \<and> resolveAgentCapability mailEnv mailWorld ''coordinator'' = None
   \<and> pendingNudges mailWorld ''coordinator'' = Some oldMarker
   \<and> fst (handleWait mailEnv [''--agent'', ''coordinator''] [quietPoll] mailWorld)
       = Inr (Some \<lparr>status = Nudged, messages = [], waitedMs = 1, polls = 1,
                     resultCancelFile = None, resultNudge = Some oldMarker\<rparr>, [])
   \<and> pendingNudges (snd (handleWait mailEnv [''--agent'', ''coordinator''] [quietPoll] mailWorld))
        ''coordinator'' = None"
  by (simp add: wait_defs mail_defs)

end
